theory Spec2Isabelle
  imports Complex_Main
begin

section \<open>The chain session of \<^verbatim>\<open>src/src/chain.ts\<close>\<close>

text \<open>
  The class \<^verbatim>\<open>Chain\<close> drives a blockchain node through three collaborators that are not
  part of the file: the JSON RPC client (\<^verbatim>\<open>rpc.get_info\<close>, \<^verbatim>\<open>api.transact\<close>), the docker
  client (\<^verbatim>\<open>manipulateChainTime\<close>) and the helpers \<^verbatim>\<open>sleep\<close>, \<^verbatim>\<open>toAssetQuantity\<close> and
  \<^verbatim>\<open>signatureProvider\<close>. Every \<^verbatim>\<open>await\<close> of the class is sequential, so a method is
  modelled as a function that takes the world and returns its result with the new world.

  \<^item> The world records every call to a collaborator in its \<open>trace\<close>, in the order of the
    calls. What a collaborator answers is an arbitrary function of the trace so far; a
    theorem that holds for every world holds for whatever the node does.
  \<^item> A JavaScript exception is the left injection of a sum type, a normal return the right.
  \<^item> JavaScript numbers that may be fractional (the seconds of \<^verbatim>\<open>addTime\<close>, the field
    \<^verbatim>\<open>timeAdded\<close>) are exact rationals, block numbers and millisecond time stamps are
    integers. \<^verbatim>\<open>NaN\<close>, the infinities and the rounding of doubles are not modelled.
  \<^item> \<^verbatim>\<open>waitTillBlock\<close> polls without a bound; it is a partial function in the option
    monad and \<open>None\<close> means that the call never returns.
\<close>

subsection \<open>Data\<close>

type_synonym number = rat

datatype error =
    Error string \<comment> \<open>\<^verbatim>\<open>new Error(message)\<close> thrown by the class itself\<close>
  | RpcError \<comment> \<open>\<^verbatim>\<open>rpc.get_info()\<close> rejected\<close>
  | TransactError \<comment> \<open>\<^verbatim>\<open>api.transact(...)\<close> rejected\<close>
  | DockerError \<comment> \<open>\<^verbatim>\<open>manipulateChainTime(...)\<close> rejected\<close>

record info =
  head_block_num :: int
  head_block_time :: string

record token =
  symbol :: string
  decimal :: nat

record permission_level =
  actor :: string
  permission :: string

record key_weight =
  key :: "string option" \<comment> \<open>\<open>None\<close> is \<^verbatim>\<open>undefined\<close>\<close>
  weight :: nat

record authority =
  threshold :: nat
  keys :: "key_weight list"
  auth_accounts :: "permission_level list"
  auth_waits :: "nat list"

datatype action_data =
    Newaccount string string authority authority
      \<comment> \<open>\<^verbatim>\<open>creator\<close>, \<^verbatim>\<open>name\<close>, \<^verbatim>\<open>owner\<close>, \<^verbatim>\<open>active\<close>\<close>
  | Buyrambytes string string nat
      \<comment> \<open>\<^verbatim>\<open>payer\<close>, \<^verbatim>\<open>receiver\<close>, \<^verbatim>\<open>bytes\<close>\<close>
  | Delegatebw string string string string nat
      \<comment> \<open>\<^verbatim>\<open>from\<close>, \<^verbatim>\<open>receiver\<close>, \<^verbatim>\<open>stake_net_quantity\<close>, \<^verbatim>\<open>stake_cpu_quantity\<close>, \<^verbatim>\<open>transfer\<close>\<close>
  | Transfer string string string string
      \<comment> \<open>\<^verbatim>\<open>from\<close>, \<^verbatim>\<open>to\<close>, \<^verbatim>\<open>quantity\<close>, \<^verbatim>\<open>memo\<close>\<close>

record action =
  act_account :: string
  act_name :: string
  act_authorization :: "permission_level list"
  act_data :: action_data

datatype event =
    GetInfo \<comment> \<open>\<^verbatim>\<open>rpc.get_info()\<close>\<close>
  | Sleep nat \<comment> \<open>\<^verbatim>\<open>sleep(ms)\<close>\<close>
  | ManipulateChainTime nat number \<comment> \<open>\<^verbatim>\<open>manipulateChainTime(port, time)\<close>\<close>
  | Transact "action list" \<comment> \<open>\<^verbatim>\<open>api.transact({ actions }, generateTapos())\<close>\<close>

text \<open>
  The world outside the class. The first three fields are the answers of the node, of the
  docker client and of the transaction client, as functions of the calls made so far;
  the next three are the values the imported helpers supply (\<^verbatim>\<open>toAssetQuantity\<close> of
  \<^verbatim>\<open>utils\<close>, \<^verbatim>\<open>signatureProvider.availableKeys\<close> of \<^verbatim>\<open>wallet\<close> and
  \<^verbatim>\<open>new Date(s).getTime()\<close>), which are not in the sources and are parameters here.
\<close>

record world =
  rpc_get_info :: "event list \<Rightarrow> info option" \<comment> \<open>\<open>None\<close>: the call rejects\<close>
  docker_ok :: "event list \<Rightarrow> bool" \<comment> \<open>\<open>False\<close>: the call rejects\<close>
  transact_ok :: "event list \<Rightarrow> bool" \<comment> \<open>\<open>False\<close>: the call rejects\<close>
  toAssetQuantity :: "nat \<Rightarrow> token \<Rightarrow> string"
  availableKeys :: "string list"
  Date_getTime :: "string \<Rightarrow> int"
  trace :: "event list"

datatype account = Account string \<comment> \<open>\<^verbatim>\<open>new Account(chain, name)\<close>\<close>

record chain =
  coreToken :: token
  accounts :: "account list"
  timeAdded :: number
  port :: nat

definition new_Chain :: "nat \<Rightarrow> chain" where
  "new_Chain p =
     \<lparr>coreToken = \<lparr>symbol = ''WAX'', decimal = 8\<rparr>, accounts = [], timeAdded = 0, port = p\<rparr>"

subsection \<open>Calls to the collaborators\<close>

text \<open>
  Modelled from the spec: \<^verbatim>\<open>sleep\<close> of \<^verbatim>\<open>utils\<close> and \<^verbatim>\<open>manipulateChainTime\<close> of
  \<^verbatim>\<open>dockerClient\<close> are imported by the class and are not in the sources. A sleep waits
  for the given milliseconds and returns; the time jump instructs the node of the given
  port to set its clock to its baseline plus the given offset and returns nothing. Both
  are recorded in the trace, so that what the node does after them shows in its later
  answers, and the time jump is rejected where the docker client says so. The same holds
  for \<^verbatim>\<open>api.transact\<close> of the library \<^verbatim>\<open>eosjs\<close>; its second argument \<^verbatim>\<open>generateTapos()\<close>,
  the header options of the transaction, is left out of the event.
\<close>

definition sleep :: "nat \<Rightarrow> world \<Rightarrow> world" where
  "sleep ms w = w\<lparr>trace := trace w @ [Sleep ms]\<rparr>"

definition manipulateChainTime :: "nat \<Rightarrow> number \<Rightarrow> world \<Rightarrow> (error + unit) \<times> world" where
  "manipulateChainTime p t w =
     (if docker_ok w (trace w) then Inr () else Inl DockerError,
      w\<lparr>trace := trace w @ [ManipulateChainTime p t]\<rparr>)"

definition transact :: "action list \<Rightarrow> world \<Rightarrow> (error + unit) \<times> world" where
  "transact actions w =
     (if transact_ok w (trace w) then Inr () else Inl TransactError,
      w\<lparr>trace := trace w @ [Transact actions]\<rparr>)"

subsection \<open>Block-production monitor\<close>

definition getInfo :: "world \<Rightarrow> (error + info) \<times> world" where
  "getInfo w =
     (case rpc_get_info w (trace w) of None \<Rightarrow> Inl RpcError | Some i \<Rightarrow> Inr i,
      w\<lparr>trace := trace w @ [GetInfo]\<rparr>)"

definition headBlockNum :: "world \<Rightarrow> (error + int) \<times> world" where
  "headBlockNum w =
     (case getInfo w of
        (Inl e, w') \<Rightarrow> (Inl e, w')
      | (Inr i, w') \<Rightarrow> (Inr (head_block_num i), w'))"

text \<open>The body of the \<^verbatim>\<open>try\<close> block of \<^verbatim>\<open>isProducingBlock\<close>.\<close>

definition isProducingBlock_try :: "world \<Rightarrow> (error + bool) \<times> world" where
  "isProducingBlock_try w =
     (case headBlockNum w of
        (Inl e, w1) \<Rightarrow> (Inl e, w1)
      | (Inr currentHeadBlock, w1) \<Rightarrow>
          (case headBlockNum (sleep 600 w1) of
             (Inl e, w2) \<Rightarrow> (Inl e, w2)
           | (Inr h, w2) \<Rightarrow> (Inr (h - currentHeadBlock > 0), w2)))"

definition isProducingBlock :: "world \<Rightarrow> (error + bool) \<times> world" where
  "isProducingBlock w =
     (case isProducingBlock_try w of
        (Inl e, w') \<Rightarrow> (Inr False, w')
      | (Inr b, w') \<Rightarrow> (Inr b, w'))"

text \<open>The \<^verbatim>\<open>while\<close> loop of \<^verbatim>\<open>waitTillBlock\<close>, entered with the last height read.\<close>

partial_function (option)
  waitTillBlock_loop :: "int \<Rightarrow> int \<Rightarrow> world \<Rightarrow> ((error + int) \<times> world) option"
where
  "waitTillBlock_loop target currentBlockHeight w =
     (if currentBlockHeight < target then
        (case headBlockNum (sleep 500 w) of
           (Inl e, w') \<Rightarrow> Some (Inl e, w')
         | (Inr h, w') \<Rightarrow> waitTillBlock_loop target h w')
      else Some (Inr currentBlockHeight, w))"

definition waitTillBlock :: "int \<Rightarrow> world \<Rightarrow> ((error + int) \<times> world) option" where
  "waitTillBlock target w =
     (case headBlockNum w of
        (Inl e, w') \<Rightarrow> Some (Inl e, w')
      | (Inr h, w') \<Rightarrow> waitTillBlock_loop target h w')"

text \<open>
  \<^verbatim>\<open>waitTillNextBlock\<close> returns the object \<^verbatim>\<open>{ startingBlock, elapsedBlocks }\<close>, here the
  pair of the two.
\<close>

definition waitTillNextBlock :: "int \<Rightarrow> world \<Rightarrow> ((error + info \<times> int) \<times> world) option" where
  "waitTillNextBlock numBlocks w =
     (case getInfo w of
        (Inl e, w1) \<Rightarrow> Some (Inl e, w1)
      | (Inr startingBlock, w1) \<Rightarrow>
          (case waitTillBlock (head_block_num startingBlock + numBlocks) w1 of
             None \<Rightarrow> None
           | Some (Inl e, w2) \<Rightarrow> Some (Inl e, w2)
           | Some (Inr currentBlockHeight, w2) \<Rightarrow>
               Some (Inr (startingBlock, currentBlockHeight - head_block_num startingBlock), w2)))"

definition blockTimeToMs :: "world \<Rightarrow> string \<Rightarrow> int" where
  "blockTimeToMs w blockTime = Date_getTime w blockTime"

subsection \<open>Account provisioner\<close>

text \<open>
  The default arguments of \<^verbatim>\<open>createAccount\<close> and \<^verbatim>\<open>createAccounts\<close>:
  \<^verbatim>\<open>supplyAmount = toAssetQuantity(100, this.coreToken)\<close> and \<^verbatim>\<open>bytes = 1024 * 1024\<close>.
\<close>

definition default_supplyAmount :: "chain \<Rightarrow> world \<Rightarrow> string" where
  "default_supplyAmount c w = toAssetQuantity w 100 (coreToken c)"

definition default_bytes :: nat where
  "default_bytes = 1024 * 1024"

text \<open>\<^verbatim>\<open>signatureProvider.availableKeys[0]\<close>, \<^verbatim>\<open>undefined\<close> on an empty array.\<close>

definition availableKeys0 :: "world \<Rightarrow> string option" where
  "availableKeys0 w = (case availableKeys w of [] \<Rightarrow> None | k # _ \<Rightarrow> Some k)"

definition eosio_active :: "permission_level list" where
  "eosio_active = [\<lparr>actor = ''eosio'', permission = ''active''\<rparr>]"

definition key_authority :: "world \<Rightarrow> authority" where
  "key_authority w =
     \<lparr>threshold = 1, keys = [\<lparr>key = availableKeys0 w, weight = 1\<rparr>],
      auth_accounts = [], auth_waits = []\<rparr>"

text \<open>The array \<^verbatim>\<open>actions\<close> that \<^verbatim>\<open>createAccount\<close> passes to \<^verbatim>\<open>api.transact\<close>.\<close>

definition createAccount_actions :: "string \<Rightarrow> string \<Rightarrow> nat \<Rightarrow> chain \<Rightarrow> world \<Rightarrow> action list" where
  "createAccount_actions account supplyAmount bytes c w =
     [\<lparr>act_account = ''eosio'', act_name = ''newaccount'', act_authorization = eosio_active,
       act_data = Newaccount ''eosio'' account (key_authority w) (key_authority w)\<rparr>,
      \<lparr>act_account = ''eosio'', act_name = ''buyrambytes'', act_authorization = eosio_active,
       act_data = Buyrambytes ''eosio'' account bytes\<rparr>,
      \<lparr>act_account = ''eosio'', act_name = ''delegatebw'', act_authorization = eosio_active,
       act_data = Delegatebw ''eosio'' account
         (toAssetQuantity w 10 (coreToken c)) (toAssetQuantity w 10 (coreToken c)) 1\<rparr>,
      \<lparr>act_account = ''eosio.token'', act_name = ''transfer'', act_authorization = eosio_active,
       act_data = Transfer ''eosio'' account supplyAmount ''supply to test account''\<rparr>]"

definition createAccount :: "string \<Rightarrow> string \<Rightarrow> nat \<Rightarrow> chain \<Rightarrow> world \<Rightarrow> (error + account) \<times> world" where
  "createAccount account supplyAmount bytes c w =
     (case transact (createAccount_actions account supplyAmount bytes c w) w of
        (Inl e, w') \<Rightarrow> (Inl e, w')
      | (Inr _, w') \<Rightarrow> (Inr (Account account), w'))"

text \<open>
  The \<^verbatim>\<open>for ... of\<close> loop of \<^verbatim>\<open>createAccounts\<close> over the names still to create. The
  parameter \<^verbatim>\<open>accounts\<close> of \<^verbatim>\<open>createAccounts\<close> is \<open>accs\<close> here and the parameter \<^verbatim>\<open>length\<close>
  of \<^verbatim>\<open>createTestAccounts\<close> is \<open>len\<close>, since the two names are taken.
\<close>

fun createAccounts_loop ::
  "string list \<Rightarrow> string \<Rightarrow> account list \<Rightarrow> chain \<Rightarrow> world \<Rightarrow> (error + account list) \<times> world"
where
  "createAccounts_loop [] supplyAmount accountInstances c w = (Inr accountInstances, w)"
| "createAccounts_loop (account # rest) supplyAmount accountInstances c w =
     (case createAccount account supplyAmount default_bytes c w of
        (Inl e, w') \<Rightarrow> (Inl e, w')
      | (Inr a, w') \<Rightarrow> createAccounts_loop rest supplyAmount (accountInstances @ [a]) c w')"

definition createAccounts ::
  "string list \<Rightarrow> string \<Rightarrow> chain \<Rightarrow> world \<Rightarrow> (error + account list) \<times> world"
where
  "createAccounts accs supplyAmount c w = createAccounts_loop accs supplyAmount [] c w"

text \<open>A non-negative integer in a template literal: its decimal digits.\<close>

function string_of_nat :: "nat \<Rightarrow> string" where
  "string_of_nat n =
     (if n < 10 then [''0123456789'' ! n]
      else string_of_nat (n div 10) @ [''0123456789'' ! (n mod 10)])"
  by pat_completeness auto
termination
  by (relation "measure (\<lambda>n. n)") auto

text \<open>
  The template literal
  \<^verbatim>\<open>`acc${Math.floor(i/5) + 1}${Math.floor(i%5) + 1}.test`\<close> for an index \<open>i \<ge> 0\<close>.
\<close>

definition testAccountName :: "nat \<Rightarrow> string" where
  "testAccountName i =
     ''acc'' @ string_of_nat (i div 5 + 1) @ string_of_nat (i mod 5 + 1) @ ''.test''"

function createTestAccounts_loop :: "nat \<Rightarrow> nat \<Rightarrow> string list \<Rightarrow> string list" where
  "createTestAccounts_loop i len testAccountNames =
     (if i < len
      then createTestAccounts_loop (i + 1) len (testAccountNames @ [testAccountName i])
      else testAccountNames)"
  by pat_completeness auto
termination
  by (relation "measure (\<lambda>(i, len, _). len - i)") auto

definition createTestAccounts :: "nat \<Rightarrow> chain \<Rightarrow> world \<Rightarrow> (error + account list) \<times> world" where
  "createTestAccounts len c w =
     createAccounts (createTestAccounts_loop 0 len []) (default_supplyAmount c w) c w"

definition initializeTestAccounts :: "chain \<Rightarrow> world \<Rightarrow> (error + unit) \<times> chain \<times> world" where
  "initializeTestAccounts c w =
     (case createTestAccounts 10 c w of
        (Inl e, w') \<Rightarrow> (Inl e, c, w')
      | (Inr accs, w') \<Rightarrow> (Inr (), c\<lparr>accounts := accs\<rparr>, w'))"

subsection \<open>Time-travel controller\<close>

definition maxTries :: nat where
  "maxTries = 10"

text \<open>
  The \<^verbatim>\<open>do ... while\<close> loop of \<^verbatim>\<open>addTime\<close>, entered with the number of tries made so far.
\<close>

function addTime_loop :: "nat \<Rightarrow> number \<Rightarrow> chain \<Rightarrow> world \<Rightarrow> (error + unit) \<times> world" where
  "addTime_loop tries addingTime c w =
     (if tries \<ge> maxTries then
        (Inl (Error ''Exceeded 10 tries to change the blockchain time. Test cannot proceed.''), w)
      else
        (case manipulateChainTime (port c) (timeAdded c + addingTime) w of
           (Inl e, w1) \<Rightarrow> (Inl e, w1)
         | (Inr _, w1) \<Rightarrow>
             (case isProducingBlock (sleep 1000 w1) of
                (Inl e, w2) \<Rightarrow> (Inl e, w2)
              | (Inr producing, w2) \<Rightarrow>
                  if \<not> producing then addTime_loop (tries + 1) addingTime c w2
                  else (Inr (), w2))))"
  by pat_completeness auto
termination
  by (relation "measure (\<lambda>(tries, _, _, _). maxTries - tries)") auto

text \<open>
  The two variables \<^verbatim>\<open>fromBlockTimeMs\<close> and \<^verbatim>\<open>addingTime\<close> that \<^verbatim>\<open>addTime\<close> computes after
  the settling wait. An empty \<^verbatim>\<open>fromBlockTime\<close> is falsy: no override.
\<close>

definition fromBlockTimeMs_of :: "world \<Rightarrow> string \<Rightarrow> int \<Rightarrow> int" where
  "fromBlockTimeMs_of w fromBlockTime startTime =
     (if fromBlockTime \<noteq> [] then blockTimeToMs w fromBlockTime else startTime)"

definition addingTime_of :: "world \<Rightarrow> number \<Rightarrow> string \<Rightarrow> int \<Rightarrow> int \<Rightarrow> number" where
  "addingTime_of w time fromBlockTime startTime elapsedBlocks =
     (if fromBlockTime \<noteq> [] then
        of_int \<lfloor>max 0 (time - of_int (startTime - blockTimeToMs w fromBlockTime) / 1000
                          - of_int elapsedBlocks * (1 / 2))\<rfloor>
      else
        of_int \<lfloor>max 0 (time - of_int elapsedBlocks * (1 / 2))\<rfloor>)"

definition addTime ::
  "number \<Rightarrow> string \<Rightarrow> chain \<Rightarrow> world \<Rightarrow> ((error + number) \<times> chain \<times> world) option"
where
  "addTime time fromBlockTime c w =
     (if time < 0 then Some (Inl (Error ''adding time much be greater than zero''), c, w)
      else
        (case waitTillNextBlock 2 w of
           None \<Rightarrow> None
         | Some (Inl e, w1) \<Rightarrow> Some (Inl e, c, w1)
         | Some (Inr (startingBlock, elapsedBlocks), w1) \<Rightarrow>
             (let startTime = blockTimeToMs w (head_block_time startingBlock);
                  fromBlockTimeMs = fromBlockTimeMs_of w fromBlockTime startTime;
                  addingTime = addingTime_of w time fromBlockTime startTime elapsedBlocks
              in if addingTime = 0 then Some (Inr 0, c, w1)
                 else
                   (case addTime_loop 0 addingTime c w1 of
                      (Inl e, w2) \<Rightarrow> Some (Inl e, c, w2)
                    | (Inr _, w2) \<Rightarrow>
                        (let c' = c\<lparr>timeAdded := timeAdded c + addingTime\<rparr> in
                         case waitTillNextBlock 2 w2 of
                           None \<Rightarrow> None
                         | Some (Inl e, w3) \<Rightarrow> Some (Inl e, c', w3)
                         | Some (Inr _, w3) \<Rightarrow>
                             (case getInfo w3 of
                                (Inl e, w4) \<Rightarrow> Some (Inl e, c', w4)
                              | (Inr i, w4) \<Rightarrow>
                                  Some (Inr (of_int (blockTimeToMs w (head_block_time i)
                                                       - fromBlockTimeMs)),
                                        c', w4)))))))"

subsection \<open>Vocabulary of the properties\<close>

text \<open>The world after the further calls \<open>es\<close>.\<close>

definition steps :: "world \<Rightarrow> event list \<Rightarrow> world" where
  "steps w es = w\<lparr>trace := trace w @ es\<rparr>"

text \<open>The invocations of the time-jump primitive among some calls.\<close>

fun is_jump :: "event \<Rightarrow> bool" where
  "is_jump (ManipulateChainTime p t) = True"
| "is_jump e = False"

definition jumps :: "event list \<Rightarrow> event list" where
  "jumps es = filter is_jump es"

text \<open>
  The head block number that the latest call returned, when the latest call of the trace
  is a \<^verbatim>\<open>get_info\<close> that the node answered.
\<close>

definition last_head :: "world \<Rightarrow> int option" where
  "last_head w =
     (if trace w \<noteq> [] \<and> last (trace w) = GetInfo
      then map_option head_block_num (rpc_get_info w (butlast (trace w)))
      else None)"

text \<open>
  The retry loop in the words of the specification: one attempt invokes the time jump with
  the cumulative offset plus the new delta, waits one second and probes block production;
  \<open>attempts n\<close> makes at most \<open>n\<close> attempts, stops at the first one after which blocks
  are produced, and fails when none of the \<open>n\<close> is.
\<close>

definition attempt :: "number \<Rightarrow> chain \<Rightarrow> world \<Rightarrow> (error + bool) \<times> world" where
  "attempt delta c w =
     (case manipulateChainTime (port c) (timeAdded c + delta) w of
        (Inl e, w1) \<Rightarrow> (Inl e, w1)
      | (Inr _, w1) \<Rightarrow> isProducingBlock (sleep 1000 w1))"

fun attempts :: "nat \<Rightarrow> number \<Rightarrow> chain \<Rightarrow> world \<Rightarrow> (error + unit) \<times> world" where
  "attempts 0 delta c w =
     (Inl (Error ''Exceeded 10 tries to change the blockchain time. Test cannot proceed.''), w)"
| "attempts (Suc n) delta c w =
     (case attempt delta c w of
        (Inl e, w') \<Rightarrow> (Inl e, w')
      | (Inr producing, w') \<Rightarrow> if producing then (Inr (), w') else attempts n delta c w')"

text \<open>
  The offset in the words of the specification: the requested seconds, minus half a second
  for each block of the settling wait, minus the gap between the reference block time and
  the start of the settling wait when a reference is given, not below zero. The code
  rounds this value down to whole seconds: \<open>offset_floor\<close>.
\<close>

definition reference_gap :: "world \<Rightarrow> string \<Rightarrow> info \<Rightarrow> number" where
  "reference_gap w fromBlockTime startingBlock =
     (if fromBlockTime = [] then 0
      else of_int (blockTimeToMs w (head_block_time startingBlock)
                     - blockTimeToMs w fromBlockTime) / 1000)"

definition offset_clamped :: "number \<Rightarrow> int \<Rightarrow> number \<Rightarrow> number" where
  "offset_clamped deltaSeconds elapsedBlocks gap =
     max 0 (deltaSeconds - of_int elapsedBlocks * (1 / 2) - gap)"

definition offset_floor :: "number \<Rightarrow> int \<Rightarrow> number \<Rightarrow> number" where
  "offset_floor deltaSeconds elapsedBlocks gap =
     of_int \<lfloor>offset_clamped deltaSeconds elapsedBlocks gap\<rfloor>"

text \<open>
  Block times as the node writes them, for the first minute of 1970: the string
  \<^verbatim>\<open>1970-01-01T00:00:SS.mmm\<close> of a number of milliseconds below 60000, and the milliseconds
  that \<^verbatim>\<open>new Date(s).getTime()\<close> reads from such a string where the local time is UTC.
\<close>

definition digit :: "nat \<Rightarrow> char" where
  "digit d = ''0123456789'' ! (d mod 10)"

definition digit_value :: "char \<Rightarrow> int" where
  "digit_value ch = int (length (takeWhile (\<lambda>d. d \<noteq> ch) ''0123456789''))"

definition iso_time :: "nat \<Rightarrow> string" where
  "iso_time ms =
     ''1970-01-01T00:00:'' @ [digit (ms div 10000), digit (ms div 1000)] @ ''.'' @
     [digit (ms div 100), digit (ms div 10), digit ms]"

definition iso_ms :: "string \<Rightarrow> int" where
  "iso_ms s =
     10000 * digit_value (s ! 17) + 1000 * digit_value (s ! 18) + 100 * digit_value (s ! 20) +
     10 * digit_value (s ! 21) + digit_value (s ! 22)"

text \<open>
  Four nodes to run the methods on. The first produces a block between any two calls:
  its head block number is the number of calls made so far, and its head block time is
  half a second per call. The second does the same until the first time jump and stands
  still from then on. The third rejects every request.
\<close>

definition live_node :: world where
  "live_node =
     \<lparr>rpc_get_info = (\<lambda>h. Some \<lparr>head_block_num = int (length h),
                                  head_block_time = iso_time (500 * length h)\<rparr>),
      docker_ok = (\<lambda>h. True),
      transact_ok = (\<lambda>h. True),
      toAssetQuantity = (\<lambda>n t. string_of_nat n @ '' '' @ symbol t),
      availableKeys = [''EOS6MRy''],
      Date_getTime = iso_ms,
      trace = []\<rparr>"

definition stalled_node :: world where
  "stalled_node =
     live_node\<lparr>rpc_get_info :=
       (\<lambda>h. Some \<lparr>head_block_num = int (length (takeWhile (\<lambda>e. \<not> is_jump e) h)),
                   head_block_time = iso_time (500 * length h)\<rparr>)\<rparr>"

definition dead_node :: world where
  "dead_node = live_node\<lparr>rpc_get_info := (\<lambda>h. None)\<rparr>"

text \<open>The transactions that a batch submits for some names, in their order.\<close>

definition submitted :: "string list \<Rightarrow> string \<Rightarrow> chain \<Rightarrow> world \<Rightarrow> event list" where
  "submitted names supplyAmount c w =
     map (\<lambda>account. Transact (createAccount_actions account supplyAmount default_bytes c w)) names"

text \<open>The fourth node accepts a transaction only as the very first call.\<close>

definition one_shot_node :: world where
  "one_shot_node = live_node\<lparr>transact_ok := (\<lambda>h. h = [])\<rparr>"

section \<open>Properties\<close>

subsection \<open>Calls only extend the trace\<close>

lemma steps_Nil [simp]: "steps w [] = w"
  by (simp add: steps_def)

lemma steps_steps [simp]: "steps (steps w es) fs = steps w (es @ fs)"
  by (simp add: steps_def)

lemma steps_fields [simp]:
  "trace (steps w es) = trace w @ es"
  "rpc_get_info (steps w es) = rpc_get_info w"
  "docker_ok (steps w es) = docker_ok w"
  "transact_ok (steps w es) = transact_ok w"
  "toAssetQuantity (steps w es) = toAssetQuantity w"
  "availableKeys (steps w es) = availableKeys w"
  "Date_getTime (steps w es) = Date_getTime w"
  by (simp_all add: steps_def)

lemma sleep_steps: "sleep ms w = steps w [Sleep ms]"
  by (simp add: sleep_def steps_def)

lemma getInfo_Inr:
  "getInfo w = (Inr i, w') \<longleftrightarrow> rpc_get_info w (trace w) = Some i \<and> w' = steps w [GetInfo]"
  by (auto simp: getInfo_def steps_def split: option.splits)

lemma getInfo_Inl:
  "getInfo w = (Inl e, w') \<longleftrightarrow>
     rpc_get_info w (trace w) = None \<and> e = RpcError \<and> w' = steps w [GetInfo]"
  by (auto simp: getInfo_def steps_def split: option.splits)

lemma headBlockNum_Inr:
  "headBlockNum w = (Inr h, w') \<longleftrightarrow>
     (\<exists>i. rpc_get_info w (trace w) = Some i \<and> head_block_num i = h) \<and> w' = steps w [GetInfo]"
  by (auto simp: headBlockNum_def getInfo_def steps_def split: option.splits)

lemma headBlockNum_Inl:
  "headBlockNum w = (Inl e, w') \<longleftrightarrow>
     rpc_get_info w (trace w) = None \<and> e = RpcError \<and> w' = steps w [GetInfo]"
  by (auto simp: headBlockNum_def getInfo_def steps_def split: option.splits)

lemma headBlockNum_steps: "snd (headBlockNum w) = steps w [GetInfo]"
  by (simp add: headBlockNum_def getInfo_def steps_def split: option.splits)

lemma headBlockNum_last_head: "headBlockNum w = (Inr h, w') \<Longrightarrow> last_head w' = Some h"
  by (auto simp: headBlockNum_Inr last_head_def)

subsection \<open>The polling loop\<close>

text \<open>
  Whenever the loop returns, it has made no time jump, the height it returns has reached
  the target, and that height is the one the latest \<^verbatim>\<open>get_info\<close> answered. The proof is
  by the induction rule of the partial function: the property holds after the body for
  every function that satisfies it at the recursive call.
\<close>

lemma waitTillBlock_loop_sound:
  assumes "waitTillBlock_loop target cur w = Some y"
  shows "(\<exists>es. snd y = steps w es \<and> jumps es = []) \<and>
     (\<forall>h. fst y = Inr h \<longrightarrow>
        target \<le> h \<and> (last_head w = Some cur \<longrightarrow> last_head (snd y) = Some h))"
  using assms
proof (induct target cur w y rule: waitTillBlock_loop.raw_induct[rotated, consumes 1])
  case (1 loop target cur w y)
  show ?case
  proof (cases "cur < target")
    case False
    with 1(2) have "y = (Inr cur, w)" by auto
    with False show ?thesis by (auto intro: exI[of _ "[]"] simp: jumps_def)
  next
    case True
    obtain r1 w1 where h1: "headBlockNum (sleep 500 w) = (r1, w1)" by fastforce
    then have w1: "w1 = steps w [Sleep 500, GetInfo]"
      using headBlockNum_steps[of "sleep 500 w"] by (simp add: sleep_steps)
    show ?thesis
    proof (cases r1)
      case (Inl e)
      with 1(2) True h1 have "y = (Inl e, w1)" by auto
      with w1 show ?thesis by (auto simp: jumps_def)
    next
      case (Inr h1')
      with 1(2) True h1 have call: "loop target h1' w1 = Some y" by auto
      from 1(1)[OF call] have
        ih: "\<exists>es. snd y = steps w1 es \<and> jumps es = []"
            "\<forall>h. fst y = Inr h \<longrightarrow>
               target \<le> h \<and> (last_head w1 = Some h1' \<longrightarrow> last_head (snd y) = Some h)"
        by auto
      have ob: "last_head w1 = Some h1'"
        using h1 Inr by (auto intro: headBlockNum_last_head)
      from ih(1) obtain es where "snd y = steps w1 es" "jumps es = []" by auto
      then have "snd y = steps w ([Sleep 500, GetInfo] @ es) \<and>
                 jumps ([Sleep 500, GetInfo] @ es) = []"
        using w1 by (simp add: jumps_def)
      then show ?thesis using ih(2) ob by blast
    qed
  qed
qed

lemma waitTillBlock_sound:
  assumes "waitTillBlock target w = Some (r, w')"
  shows "(\<exists>es. w' = steps w es \<and> jumps es = []) \<and>
     (\<forall>h. r = Inr h \<longrightarrow> target \<le> h \<and> last_head w' = Some h)"
proof (cases "headBlockNum w")
  case (Pair r1 w1)
  then have w1: "w1 = steps w [GetInfo]"
    using headBlockNum_steps[of w] by simp
  show ?thesis
  proof (cases r1)
    case (Inl e)
    with assms Pair have "r = Inl e" "w' = w1" by (auto simp: waitTillBlock_def)
    with w1 show ?thesis by (auto simp: jumps_def)
  next
    case (Inr h1)
    with assms Pair have call: "waitTillBlock_loop target h1 w1 = Some (r, w')"
      by (auto simp: waitTillBlock_def)
    have ob: "last_head w1 = Some h1"
      using Pair Inr by (auto intro: headBlockNum_last_head)
    from waitTillBlock_loop_sound[OF call] obtain es where
      es: "w' = steps w1 es" "jumps es = []" and
      hs: "\<forall>h. r = Inr h \<longrightarrow> target \<le> h \<and> (last_head w1 = Some h1 \<longrightarrow> last_head w' = Some h)"
      by auto
    from es w1 have "w' = steps w ([GetInfo] @ es) \<and> jumps ([GetInfo] @ es) = []"
      by (simp add: jumps_def)
    then show ?thesis using hs ob by blast
  qed
qed

lemma waitTillNextBlock_steps:
  assumes "waitTillNextBlock n w = Some (r, w')"
  shows "\<exists>es. w' = steps w es \<and> jumps es = []"
proof (cases "rpc_get_info w (trace w)")
  case None
  with assms have "w' = steps w [GetInfo]"
    by (auto simp: waitTillNextBlock_def getInfo_def steps_def)
  then show ?thesis by (auto simp: jumps_def)
next
  case (Some sb)
  then have g: "getInfo w = (Inr sb, steps w [GetInfo])" by (simp add: getInfo_Inr)
  with assms obtain r2 where "waitTillBlock (head_block_num sb + n) (steps w [GetInfo]) = Some (r2, w')"
    by (auto simp: waitTillNextBlock_def split: option.splits sum.splits)
  from waitTillBlock_sound[OF this] obtain es where
    "w' = steps (steps w [GetInfo]) es" "jumps es = []" by auto
  then have "w' = steps w ([GetInfo] @ es) \<and> jumps ([GetInfo] @ es) = []"
    by (simp add: jumps_def)
  then show ?thesis by blast
qed

lemma waitTillNextBlock_Inr:
  assumes "waitTillNextBlock n w = Some (Inr (sb, eb), w')"
  shows "rpc_get_info w (trace w) = Some sb \<and> n \<le> eb \<and>
         last_head w' = Some (head_block_num sb + eb)"
proof (cases "rpc_get_info w (trace w)")
  case None
  with assms show ?thesis by (auto simp: waitTillNextBlock_def getInfo_def)
next
  case (Some i)
  then have g: "getInfo w = (Inr i, steps w [GetInfo])" by (simp add: getInfo_Inr)
  with assms obtain h where
    wt: "waitTillBlock (head_block_num i + n) (steps w [GetInfo]) = Some (Inr h, w')" and
    eq: "sb = i" "eb = h - head_block_num i"
    by (auto simp: waitTillNextBlock_def split: option.splits sum.splits)
  from waitTillBlock_sound[OF wt] have "head_block_num i + n \<le> h" "last_head w' = Some h"
    by auto
  with Some eq show ?thesis by simp
qed

subsection \<open>Block-production monitor\<close>


text \<open>
  The call on the node that produces a block between any two requests: the snapshot has
  head block number 0, the poll reads 1 and then 3, so three blocks elapsed for \<open>n = 2\<close>.
\<close>

lemmas node_defs = live_node_def stalled_node_def dead_node_def steps_def
  iso_time_def iso_ms_def digit_def digit_value_def

lemmas run_defs = waitTillNextBlock_def waitTillBlock_def getInfo_def headBlockNum_def
  sleep_def isProducingBlock_def isProducingBlock_try_def manipulateChainTime_def

lemma live_settle:
  "waitTillNextBlock 2 live_node =
     Some (Inr (\<lparr>head_block_num = 0, head_block_time = ''1970-01-01T00:00:00.000''\<rparr>, 3),
           steps live_node [GetInfo, GetInfo, Sleep 500, GetInfo])"
  by (simp add: node_defs run_defs waitTillBlock_loop.simps)


text \<open>
  C9. \<^verbatim>\<open>isProducingBlock()\<close> never throws. It returns \<^verbatim>\<open>false\<close> when the first \<^verbatim>\<open>get_info\<close>
  is rejected, and also when the second one, made after a sleep of 600 ms, is rejected.
  When the node answers both, the result is \<^verbatim>\<open>true\<close> exactly when the head block number
  of the second answer is greater than that of the first, that is when the head block
  number has increased; for two samples of which the second is not below the first, this
  is the same as the two samples being different.
\<close>

theorem isProducingBlock_probe:
  "(\<forall>e. fst (isProducingBlock w) \<noteq> Inl e) \<and>
   isProducingBlock w =
     (case rpc_get_info w (trace w) of
        None \<Rightarrow> (Inr False, steps w [GetInfo])
      | Some first \<Rightarrow>
          (case rpc_get_info w (trace w @ [GetInfo, Sleep 600]) of
             None \<Rightarrow> (Inr False, steps w [GetInfo, Sleep 600, GetInfo])
           | Some second \<Rightarrow>
               (Inr (head_block_num first < head_block_num second),
                steps w [GetInfo, Sleep 600, GetInfo]))) \<and>
   (\<forall>first second.
      rpc_get_info w (trace w) = Some first \<longrightarrow>
      rpc_get_info w (trace w @ [GetInfo, Sleep 600]) = Some second \<longrightarrow>
      head_block_num first \<le> head_block_num second \<longrightarrow>
      (fst (isProducingBlock w) = Inr True \<longleftrightarrow> head_block_num second \<noteq> head_block_num first))"
  by (auto simp: isProducingBlock_def isProducingBlock_try_def headBlockNum_def getInfo_def
        sleep_def steps_def split: option.splits)

theorem isProducingBlock_probe_witness:
  "isProducingBlock dead_node = (Inr False, steps dead_node [GetInfo]) \<and>
   isProducingBlock live_node = (Inr True, steps live_node [GetInfo, Sleep 600, GetInfo]) \<and>
   isProducingBlock (steps stalled_node [ManipulateChainTime 8888 8]) =
     (Inr False, steps stalled_node [ManipulateChainTime 8888 8, GetInfo, Sleep 600, GetInfo]) \<and>
   rpc_get_info live_node (trace live_node) = Some \<lparr>head_block_num = 0, head_block_time = ''1970-01-01T00:00:00.000''\<rparr> \<and>
   rpc_get_info live_node (trace live_node @ [GetInfo, Sleep 600]) =
     Some \<lparr>head_block_num = 2, head_block_time = ''1970-01-01T00:00:01.000''\<rparr> \<and>
   fst (isProducingBlock live_node) = Inr True"
  using isProducingBlock_probe[of dead_node] isProducingBlock_probe[of live_node]
    isProducingBlock_probe[of "steps stalled_node [ManipulateChainTime 8888 8]"]
  by (simp add: node_defs)

subsection \<open>Time-travel controller: the offset and the retry loop\<close>

declare addTime_loop.simps [simp del]
declare string_of_nat.simps [simp del]
declare createTestAccounts_loop.simps [simp del]

lemma floor_rat_numeral [simp]:
  "\<lfloor>(numeral a :: rat) / numeral b\<rfloor> = numeral a div numeral b"
  using floor_divide_of_int_eq[of "numeral a" "numeral b", where ?'a = rat] by simp

lemma offset_floor_nonneg: "0 \<le> offset_floor d eb g"
  by (simp add: offset_floor_def offset_clamped_def)

lemma offset_floor_pos: "offset_floor d eb g \<noteq> 0 \<Longrightarrow> 0 < offset_floor d eb g"
  using offset_floor_nonneg[of d eb g] by linarith

lemma addingTime_of_offset:
  "addingTime_of w time fbt (blockTimeToMs w (head_block_time sb)) eb =
     offset_floor time eb (reference_gap w fbt sb)"
  by (simp add: addingTime_of_def offset_floor_def offset_clamped_def reference_gap_def algebra_simps)

lemma offset_floor_small:
  assumes "d \<le> 1" "2 \<le> eb"
  shows "offset_floor d eb 0 = 0"
proof -
  have "(2::rat) \<le> of_int eb" using assms(2) by (metis of_int_le_iff of_int_numeral)
  then have "d - of_int eb * (1 / 2) - 0 \<le> 0" using assms(1) by simp
  then have "offset_clamped d eb 0 = 0" by (simp add: offset_clamped_def max_def)
  then show ?thesis by (simp add: offset_floor_def)
qed

lemma isProducingBlock_steps:
  "\<exists>b es. isProducingBlock w = (Inr b, steps w es) \<and> jumps es = []"
  by (auto simp: isProducingBlock_def isProducingBlock_try_def headBlockNum_def getInfo_def
        sleep_def steps_def jumps_def split: option.splits)

lemma manipulateChainTime_steps:
  "snd (manipulateChainTime p t w) = steps w [ManipulateChainTime p t]"
  by (simp add: manipulateChainTime_def steps_def)

lemma manipulateChainTime_fst:
  "fst (manipulateChainTime p t w) = Inr () \<or> fst (manipulateChainTime p t w) = Inl DockerError"
  by (simp add: manipulateChainTime_def)

lemma attempt_steps:
  "\<exists>r es. attempt d c w = (r, steps w (ManipulateChainTime (port c) (timeAdded c + d) # es)) \<and>
      jumps es = [] \<and> (r = Inl DockerError \<or> (\<exists>b. r = Inr b))"
proof (cases "manipulateChainTime (port c) (timeAdded c + d) w")
  case (Pair r1 w1)
  then have w1: "w1 = steps w [ManipulateChainTime (port c) (timeAdded c + d)]"
    using manipulateChainTime_steps[of "port c" "timeAdded c + d" w] by simp
  from Pair manipulateChainTime_fst[of "port c" "timeAdded c + d" w]
  consider "r1 = Inr ()" | "r1 = Inl DockerError" by auto
  then show ?thesis
  proof cases
    case 1
    obtain b es where "isProducingBlock (sleep 1000 w1) = (Inr b, steps (sleep 1000 w1) es)" "jumps es = []"
      using isProducingBlock_steps by blast
    with 1 Pair w1 have "attempt d c w = (Inr b, steps w (ManipulateChainTime (port c) (timeAdded c + d) # Sleep 1000 # es))
       \<and> jumps (Sleep 1000 # es) = []"
      by (simp add: attempt_def sleep_steps jumps_def)
    then show ?thesis by blast
  next
    case 2
    with Pair w1 have "attempt d c w = (Inl DockerError, steps w (ManipulateChainTime (port c) (timeAdded c + d) # []))
      \<and> jumps [] = []"
      by (simp add: attempt_def jumps_def)
    then show ?thesis by blast
  qed
qed

lemma addTime_loop_attempts:
  "tries \<le> maxTries \<Longrightarrow> addTime_loop tries d c w = attempts (maxTries - tries) d c w"
proof (induction tries d c w rule: addTime_loop.induct)
  case (1 tries d c w)
  show ?case
  proof (cases "tries \<ge> maxTries")
    case True
    with 1(2) have "maxTries - tries = 0" by simp
    with True show ?thesis by (simp add: addTime_loop.simps[of tries])
  next
    case False
    then have suc: "maxTries - tries = Suc (maxTries - (tries + 1))" by simp
    from False have le: "tries + 1 \<le> maxTries" by simp
    note ih = 1(1)[OF False _ _ _ _ _ le]
    show ?thesis
      unfolding suc attempts.simps addTime_loop.simps[of tries] attempt_def
      using False ih
      by (auto split: prod.splits sum.splits)
  qed
qed


lemma attempts_steps:
  "attempts n d c w = (r, w') \<Longrightarrow>
     \<exists>es k. w' = steps w es \<and> k \<le> n \<and>
       jumps es = replicate k (ManipulateChainTime (port c) (timeAdded c + d)) \<and>
       (0 < n \<longrightarrow> 0 < k \<and> hd es = ManipulateChainTime (port c) (timeAdded c + d)) \<and>
       (r = Inl (Error ''Exceeded 10 tries to change the blockchain time. Test cannot proceed.'') \<longrightarrow> k = n) \<and>
       (r = Inr () \<or> r = Inl DockerError \<or>
        r = Inl (Error ''Exceeded 10 tries to change the blockchain time. Test cannot proceed.''))"
proof (induction n arbitrary: w)
  case 0
  then have "w' = steps w [] \<and> jumps [] = replicate 0 (ManipulateChainTime (port c) (timeAdded c + d))"
    by (simp add: jumps_def)
  with 0 show ?case by (intro exI[of _ "[]"] exI[of _ 0]) auto
next
  case (Suc n)
  let ?J = "ManipulateChainTime (port c) (timeAdded c + d)"
  obtain r1 es1 where a: "attempt d c w = (r1, steps w (?J # es1))" "jumps es1 = []"
     "r1 = Inl DockerError \<or> (\<exists>b. r1 = Inr b)"
    using attempt_steps[of d c w] by blast
  have j1: "jumps (?J # es1) = [?J]" using a(2) by (simp add: jumps_def)
  consider "r1 = Inl DockerError" | "r1 = Inr True" | "r1 = Inr False" using a(3) by auto
  then show ?case
  proof cases
    case 1
    with Suc.prems a have "r = Inl DockerError" "w' = steps w (?J # es1)" by auto
    with j1 show ?thesis by (intro exI[of _ "?J # es1"] exI[of _ 1]) auto
  next
    case 2
    with Suc.prems a have "r = Inr ()" "w' = steps w (?J # es1)" by auto
    with j1 show ?thesis by (intro exI[of _ "?J # es1"] exI[of _ 1]) auto
  next
    case 3
    with Suc.prems a have "attempts n d c (steps w (?J # es1)) = (r, w')" by auto
    from Suc.IH[OF this] obtain es k where
      ih: "w' = steps (steps w (?J # es1)) es" "k \<le> n" "jumps es = replicate k ?J"
          "r = Inl (Error ''Exceeded 10 tries to change the blockchain time. Test cannot proceed.'') \<longrightarrow> k = n"
          "r = Inr () \<or> r = Inl DockerError \<or>
           r = Inl (Error ''Exceeded 10 tries to change the blockchain time. Test cannot proceed.'')"
      by blast
    have "jumps ((?J # es1) @ es) = replicate (Suc k) ?J"
      using j1 ih(3) by (simp add: jumps_def)
    with ih show ?thesis
      by (intro exI[of _ "(?J # es1) @ es"] exI[of _ "Suc k"]) auto
  qed
qed


lemma addTime_settled:
  assumes "0 \<le> time" and "waitTillNextBlock 2 w = Some (Inr (sb, eb), w1)"
    and "d = addingTime_of w time fbt (blockTimeToMs w (head_block_time sb)) eb"
  shows "addTime time fbt c w =
     (if d = 0 then Some (Inr 0, c, w1)
      else
        (case attempts 10 d c w1 of
           (Inl e, w2) \<Rightarrow> Some (Inl e, c, w2)
         | (Inr _, w2) \<Rightarrow>
             (case waitTillNextBlock 2 w2 of
                None \<Rightarrow> None
              | Some (Inl e, w3) \<Rightarrow> Some (Inl e, c\<lparr>timeAdded := timeAdded c + d\<rparr>, w3)
              | Some (Inr _, w3) \<Rightarrow>
                  (case getInfo w3 of
                     (Inl e, w4) \<Rightarrow> Some (Inl e, c\<lparr>timeAdded := timeAdded c + d\<rparr>, w4)
                   | (Inr i, w4) \<Rightarrow>
                       Some (Inr (of_int (blockTimeToMs w (head_block_time i)
                                   - fromBlockTimeMs_of w fbt (blockTimeToMs w (head_block_time sb)))),
                             c\<lparr>timeAdded := timeAdded c + d\<rparr>, w4)))))"
proof -
  have l: "addTime_loop 0 d c w1 = attempts 10 d c w1"
    using addTime_loop_attempts[of 0 d c w1] by (simp add: maxTries_def)
  show ?thesis
    using assms(1,2) l unfolding assms(3)
    by (simp add: addTime_def Let_def split: prod.splits sum.splits option.splits)
qed

lemma addTime_unsettled:
  assumes "0 \<le> time"
  shows "waitTillNextBlock 2 w = None \<Longrightarrow> addTime time fbt c w = None"
    and "waitTillNextBlock 2 w = Some (Inl e, w1) \<Longrightarrow> addTime time fbt c w = Some (Inl e, c, w1)"
  using assms by (simp_all add: addTime_def)


lemma new_events: "w' = steps w es \<Longrightarrow> drop (length (trace w)) (trace w') = es"
  by simp


subsection \<open>Runs on the example nodes\<close>

lemmas chain_defs = node_defs new_Chain_def

lemmas time_defs = addTime_def addingTime_of_def fromBlockTimeMs_of_def blockTimeToMs_def
  maxTries_def

lemma live_addingTime:
  "addingTime_of live_node 10 [] (blockTimeToMs live_node ''1970-01-01T00:00:00.000'') 3 = 8"
  by (simp add: addingTime_of_def)

lemma live_loop:
  "addTime_loop 0 8 (new_Chain 8888) (steps live_node [GetInfo, GetInfo, Sleep 500, GetInfo]) =
     (Inr (), steps live_node [GetInfo, GetInfo, Sleep 500, GetInfo,
        ManipulateChainTime 8888 8, Sleep 1000, GetInfo, Sleep 600, GetInfo])"
  by (simp add: chain_defs run_defs time_defs addTime_loop.simps)

lemma live_addTime:
  "addTime 10 [] (new_Chain 8888) live_node =
     Some (Inr 6500, (new_Chain 8888)\<lparr>timeAdded := 8\<rparr>,
       steps live_node [GetInfo, GetInfo, Sleep 500, GetInfo,
         ManipulateChainTime 8888 8, Sleep 1000, GetInfo, Sleep 600, GetInfo,
         GetInfo, GetInfo, Sleep 500, GetInfo, GetInfo])"
  by (simp add: chain_defs run_defs time_defs addTime_loop.simps waitTillBlock_loop.simps)

lemma stalled_settle:
  "waitTillNextBlock 2 stalled_node =
     Some (Inr (\<lparr>head_block_num = 0, head_block_time = ''1970-01-01T00:00:00.000''\<rparr>, 3),
           steps stalled_node [GetInfo, GetInfo, Sleep 500, GetInfo])"
  by (simp add: node_defs run_defs waitTillBlock_loop.simps)


lemma stalled_loop:
  "addTime_loop 0 8 (new_Chain 8888) (steps stalled_node [GetInfo, GetInfo, Sleep 500, GetInfo]) =
     (Inl (Error ''Exceeded 10 tries to change the blockchain time. Test cannot proceed.''),
      steps stalled_node
        [GetInfo, GetInfo, Sleep 500, GetInfo,
         ManipulateChainTime 8888 8, Sleep 1000, GetInfo, Sleep 600, GetInfo,
         ManipulateChainTime 8888 8, Sleep 1000, GetInfo, Sleep 600, GetInfo,
         ManipulateChainTime 8888 8, Sleep 1000, GetInfo, Sleep 600, GetInfo,
         ManipulateChainTime 8888 8, Sleep 1000, GetInfo, Sleep 600, GetInfo,
         ManipulateChainTime 8888 8, Sleep 1000, GetInfo, Sleep 600, GetInfo,
         ManipulateChainTime 8888 8, Sleep 1000, GetInfo, Sleep 600, GetInfo,
         ManipulateChainTime 8888 8, Sleep 1000, GetInfo, Sleep 600, GetInfo,
         ManipulateChainTime 8888 8, Sleep 1000, GetInfo, Sleep 600, GetInfo,
         ManipulateChainTime 8888 8, Sleep 1000, GetInfo, Sleep 600, GetInfo,
         ManipulateChainTime 8888 8, Sleep 1000, GetInfo, Sleep 600, GetInfo])"
  by (simp add: chain_defs run_defs time_defs addTime_loop.simps)

lemma stalled_addTime:
  "addTime 10 [] (new_Chain 8888) stalled_node =
     Some (Inl (Error ''Exceeded 10 tries to change the blockchain time. Test cannot proceed.''),
      new_Chain 8888,
      steps stalled_node
        [GetInfo, GetInfo, Sleep 500, GetInfo,
         ManipulateChainTime 8888 8, Sleep 1000, GetInfo, Sleep 600, GetInfo,
         ManipulateChainTime 8888 8, Sleep 1000, GetInfo, Sleep 600, GetInfo,
         ManipulateChainTime 8888 8, Sleep 1000, GetInfo, Sleep 600, GetInfo,
         ManipulateChainTime 8888 8, Sleep 1000, GetInfo, Sleep 600, GetInfo,
         ManipulateChainTime 8888 8, Sleep 1000, GetInfo, Sleep 600, GetInfo,
         ManipulateChainTime 8888 8, Sleep 1000, GetInfo, Sleep 600, GetInfo,
         ManipulateChainTime 8888 8, Sleep 1000, GetInfo, Sleep 600, GetInfo,
         ManipulateChainTime 8888 8, Sleep 1000, GetInfo, Sleep 600, GetInfo,
         ManipulateChainTime 8888 8, Sleep 1000, GetInfo, Sleep 600, GetInfo,
         ManipulateChainTime 8888 8, Sleep 1000, GetInfo, Sleep 600, GetInfo])"
  by (simp add: chain_defs run_defs time_defs addTime_loop.simps waitTillBlock_loop.simps)



lemma live_addTime_from:
  "addTime 10 ''1970-01-01T00:00:02.000'' (new_Chain 8888) live_node =
     Some (Inr 4500, (new_Chain 8888)\<lparr>timeAdded := 10\<rparr>,
       steps live_node [GetInfo, GetInfo, Sleep 500, GetInfo,
         ManipulateChainTime 8888 10, Sleep 1000, GetInfo, Sleep 600, GetInfo,
         GetInfo, GetInfo, Sleep 500, GetInfo, GetInfo])"
proof -
  have t: "(0::number) \<le> 10" by simp
  have d: "(10::number) = addingTime_of live_node 10 ''1970-01-01T00:00:02.000''
     (blockTimeToMs live_node (head_block_time \<lparr>head_block_num = 0, head_block_time = ''1970-01-01T00:00:00.000''\<rparr>)) 3"
    by (simp add: addingTime_of_def blockTimeToMs_def node_defs)
  have l: "attempts 10 10 (new_Chain 8888) (steps live_node [GetInfo, GetInfo, Sleep 500, GetInfo]) =
    (Inr (), steps live_node [GetInfo, GetInfo, Sleep 500, GetInfo,
        ManipulateChainTime 8888 10, Sleep 1000, GetInfo, Sleep 600, GetInfo])"
    using addTime_loop_attempts[of 0 10 "new_Chain 8888" "steps live_node [GetInfo, GetInfo, Sleep 500, GetInfo]"]
    by (simp add: chain_defs run_defs maxTries_def addTime_loop.simps)
  have s2: "waitTillNextBlock 2 (steps live_node [GetInfo, GetInfo, Sleep 500, GetInfo,
        ManipulateChainTime 8888 10, Sleep 1000, GetInfo, Sleep 600, GetInfo]) =
      Some (Inr (\<lparr>head_block_num = 9, head_block_time = ''1970-01-01T00:00:04.500''\<rparr>, 3),
        steps live_node [GetInfo, GetInfo, Sleep 500, GetInfo,
         ManipulateChainTime 8888 10, Sleep 1000, GetInfo, Sleep 600, GetInfo,
         GetInfo, GetInfo, Sleep 500, GetInfo])"
    by (simp add: node_defs run_defs waitTillBlock_loop.simps)
  have g: "getInfo (steps live_node [GetInfo, GetInfo, Sleep 500, GetInfo,
         ManipulateChainTime 8888 10, Sleep 1000, GetInfo, Sleep 600, GetInfo,
         GetInfo, GetInfo, Sleep 500, GetInfo]) =
     (Inr \<lparr>head_block_num = 13, head_block_time = ''1970-01-01T00:00:06.500''\<rparr>,
      steps live_node [GetInfo, GetInfo, Sleep 500, GetInfo,
         ManipulateChainTime 8888 10, Sleep 1000, GetInfo, Sleep 600, GetInfo,
         GetInfo, GetInfo, Sleep 500, GetInfo, GetInfo])"
    by (simp add: node_defs run_defs)
  have m: "blockTimeToMs live_node ''1970-01-01T00:00:06.500'' = 6500"
    by (simp add: blockTimeToMs_def node_defs)
  have r: "fromBlockTimeMs_of live_node ''1970-01-01T00:00:02.000'' st = 2000" for st
    by (simp add: fromBlockTimeMs_of_def blockTimeToMs_def node_defs)
  have z: "timeAdded (new_Chain 8888) = 0" by (simp add: new_Chain_def)
  show ?thesis
    unfolding addTime_settled[OF t live_settle d]
    by (simp add: l s2 g m r z)
qed

subsection \<open>Time-travel controller: the argument check\<close>

text \<open>
  C2. For every negative \<^verbatim>\<open>time\<close>, \<^verbatim>\<open>addTime\<close> returns at once by throwing the error
  \<^verbatim>\<open>adding time much be greater than zero\<close>: the world is the one of the call, so nothing
  was awaited, requested from the node or jumped, and the session, with its \<^verbatim>\<open>timeAdded\<close>,
  is unchanged.
\<close>

theorem addTime_negative:
  assumes "time < 0"
  shows "addTime time fromBlockTime c w =
           Some (Inl (Error ''adding time much be greater than zero''), c, w)"
  using assms by (simp add: addTime_def)

theorem addTime_negative_witness:
  "(- 5 :: number) < 0 \<and>
   addTime (- 5) [] (new_Chain 8888) live_node =
     Some (Inl (Error ''adding time much be greater than zero''), new_Chain 8888, live_node) \<and>
   timeAdded (new_Chain 8888) = 0 \<and> trace live_node = []"
  using addTime_negative[of "- 5" "[]" "new_Chain 8888" live_node]
  by (simp add: new_Chain_def live_node_def)

subsection \<open>Time-travel controller: the cumulative offset\<close>



subsection \<open>Time-travel controller: the computed offset\<close>




subsection \<open>Time-travel controller: the bounded retry\<close>

text \<open>
  C4. When the settling wait of a call with a non-negative \<^verbatim>\<open>time\<close> has returned and the
  computed \<^verbatim>\<open>addingTime\<close> is positive, the \<^verbatim>\<open>do ... while\<close> loop of \<^verbatim>\<open>addTime\<close> is
  \<open>attempts 10\<close>: at most ten attempts, each of them the time jump to \<^verbatim>\<open>timeAdded\<close> plus
  \<^verbatim>\<open>addingTime\<close>, a sleep of one second and the probe \<^verbatim>\<open>isProducingBlock\<close>, ending at the
  first attempt after which blocks are produced. The loop makes between one and ten time
  jumps, all with that argument, the first of them as its first call, and it throws
  \<^verbatim>\<open>Exceeded 10 tries ...\<close> only after ten. When the loop throws, \<^verbatim>\<open>addTime\<close> throws the same
  error with the session, and so \<^verbatim>\<open>timeAdded\<close>, unchanged; when the loop succeeds, every
  way \<^verbatim>\<open>addTime\<close> returns has \<^verbatim>\<open>timeAdded\<close> increased by \<^verbatim>\<open>addingTime\<close>.
\<close>

theorem addTime_bounded_retry:
  assumes "0 \<le> time"
    and "waitTillNextBlock 2 w = Some (Inr (startingBlock, elapsedBlocks), w1)"
    and "addingTime = addingTime_of w time fromBlockTime
           (blockTimeToMs w (head_block_time startingBlock)) elapsedBlocks"
    and "0 < addingTime"
    and "addTime_loop 0 addingTime c w1 = (r, w2)"
  shows "attempts 10 addingTime c w1 = (r, w2) \<and>
     (\<exists>k es. 1 \<le> k \<and> k \<le> 10 \<and> w2 = steps w1 es \<and>
        jumps es = replicate k (ManipulateChainTime (port c) (timeAdded c + addingTime)) \<and>
        hd es = ManipulateChainTime (port c) (timeAdded c + addingTime) \<and>
        (r = Inl (Error ''Exceeded 10 tries to change the blockchain time. Test cannot proceed.'')
           \<longrightarrow> k = 10)) \<and>
     (\<forall>e. r = Inl e \<longrightarrow> addTime time fromBlockTime c w = Some (Inl e, c, w2)) \<and>
     (r = Inr () \<longrightarrow>
        (\<forall>r' c' w'. addTime time fromBlockTime c w = Some (r', c', w') \<longrightarrow>
           c' = c\<lparr>timeAdded := timeAdded c + addingTime\<rparr>))"
proof -
  have a: "attempts 10 addingTime c w1 = (r, w2)"
    using addTime_loop_attempts[of 0 addingTime c w1] assms(5) by (simp add: maxTries_def)
  from attempts_steps[OF a] obtain es k where
    "w2 = steps w1 es" "k \<le> 10"
    "jumps es = replicate k (ManipulateChainTime (port c) (timeAdded c + addingTime))"
    "0 < k" "hd es = ManipulateChainTime (port c) (timeAdded c + addingTime)"
    "r = Inl (Error ''Exceeded 10 tries to change the blockchain time. Test cannot proceed.'')
       \<longrightarrow> k = 10"
    by auto
  then have count: "\<exists>k es. 1 \<le> k \<and> k \<le> 10 \<and> w2 = steps w1 es \<and>
        jumps es = replicate k (ManipulateChainTime (port c) (timeAdded c + addingTime)) \<and>
        hd es = ManipulateChainTime (port c) (timeAdded c + addingTime) \<and>
        (r = Inl (Error ''Exceeded 10 tries to change the blockchain time. Test cannot proceed.'')
           \<longrightarrow> k = 10)"
    by (intro exI[of _ k] exI[of _ es]) auto
  note eq = addTime_settled[OF assms(1,2,3), of c]
  have fail: "addTime time fromBlockTime c w = Some (Inl e, c, w2)" if "r = Inl e" for e
    using that a assms(4) unfolding eq by simp
  have commit: "c' = c\<lparr>timeAdded := timeAdded c + addingTime\<rparr>"
    if "r = Inr ()" "addTime time fromBlockTime c w = Some (r', c', w')" for r' c' w'
    using that a assms(4) unfolding eq
    by (auto split: option.splits sum.splits prod.splits)
  from a count fail commit show ?thesis by blast
qed

theorem addTime_bounded_retry_witness:
  "(0::number) \<le> 10 \<and> (0::number) < 8 \<and>
   waitTillNextBlock 2 stalled_node =
     Some (Inr (\<lparr>head_block_num = 0, head_block_time = ''1970-01-01T00:00:00.000''\<rparr>, 3), steps stalled_node [GetInfo, GetInfo, Sleep 500, GetInfo]) \<and>
   addingTime_of stalled_node 10 []
     (blockTimeToMs stalled_node (head_block_time \<lparr>head_block_num = 0, head_block_time = ''1970-01-01T00:00:00.000''\<rparr>)) 3 = 8 \<and>
   addTime_loop 0 8 (new_Chain 8888) (steps stalled_node [GetInfo, GetInfo, Sleep 500, GetInfo]) =
     (Inl (Error ''Exceeded 10 tries to change the blockchain time. Test cannot proceed.''),
      steps stalled_node
        [GetInfo, GetInfo, Sleep 500, GetInfo,
         ManipulateChainTime 8888 8, Sleep 1000, GetInfo, Sleep 600, GetInfo,
         ManipulateChainTime 8888 8, Sleep 1000, GetInfo, Sleep 600, GetInfo,
         ManipulateChainTime 8888 8, Sleep 1000, GetInfo, Sleep 600, GetInfo,
         ManipulateChainTime 8888 8, Sleep 1000, GetInfo, Sleep 600, GetInfo,
         ManipulateChainTime 8888 8, Sleep 1000, GetInfo, Sleep 600, GetInfo,
         ManipulateChainTime 8888 8, Sleep 1000, GetInfo, Sleep 600, GetInfo,
         ManipulateChainTime 8888 8, Sleep 1000, GetInfo, Sleep 600, GetInfo,
         ManipulateChainTime 8888 8, Sleep 1000, GetInfo, Sleep 600, GetInfo,
         ManipulateChainTime 8888 8, Sleep 1000, GetInfo, Sleep 600, GetInfo,
         ManipulateChainTime 8888 8, Sleep 1000, GetInfo, Sleep 600, GetInfo]) \<and>
   attempts 10 8 (new_Chain 8888) (steps stalled_node [GetInfo, GetInfo, Sleep 500, GetInfo]) =
     (Inl (Error ''Exceeded 10 tries to change the blockchain time. Test cannot proceed.''),
      steps stalled_node
        [GetInfo, GetInfo, Sleep 500, GetInfo,
         ManipulateChainTime 8888 8, Sleep 1000, GetInfo, Sleep 600, GetInfo,
         ManipulateChainTime 8888 8, Sleep 1000, GetInfo, Sleep 600, GetInfo,
         ManipulateChainTime 8888 8, Sleep 1000, GetInfo, Sleep 600, GetInfo,
         ManipulateChainTime 8888 8, Sleep 1000, GetInfo, Sleep 600, GetInfo,
         ManipulateChainTime 8888 8, Sleep 1000, GetInfo, Sleep 600, GetInfo,
         ManipulateChainTime 8888 8, Sleep 1000, GetInfo, Sleep 600, GetInfo,
         ManipulateChainTime 8888 8, Sleep 1000, GetInfo, Sleep 600, GetInfo,
         ManipulateChainTime 8888 8, Sleep 1000, GetInfo, Sleep 600, GetInfo,
         ManipulateChainTime 8888 8, Sleep 1000, GetInfo, Sleep 600, GetInfo,
         ManipulateChainTime 8888 8, Sleep 1000, GetInfo, Sleep 600, GetInfo]) \<and>
   addTime 10 [] (new_Chain 8888) stalled_node =
     Some (Inl (Error ''Exceeded 10 tries to change the blockchain time. Test cannot proceed.''),
       new_Chain 8888,
       steps stalled_node
        [GetInfo, GetInfo, Sleep 500, GetInfo,
         ManipulateChainTime 8888 8, Sleep 1000, GetInfo, Sleep 600, GetInfo,
         ManipulateChainTime 8888 8, Sleep 1000, GetInfo, Sleep 600, GetInfo,
         ManipulateChainTime 8888 8, Sleep 1000, GetInfo, Sleep 600, GetInfo,
         ManipulateChainTime 8888 8, Sleep 1000, GetInfo, Sleep 600, GetInfo,
         ManipulateChainTime 8888 8, Sleep 1000, GetInfo, Sleep 600, GetInfo,
         ManipulateChainTime 8888 8, Sleep 1000, GetInfo, Sleep 600, GetInfo,
         ManipulateChainTime 8888 8, Sleep 1000, GetInfo, Sleep 600, GetInfo,
         ManipulateChainTime 8888 8, Sleep 1000, GetInfo, Sleep 600, GetInfo,
         ManipulateChainTime 8888 8, Sleep 1000, GetInfo, Sleep 600, GetInfo,
         ManipulateChainTime 8888 8, Sleep 1000, GetInfo, Sleep 600, GetInfo]) \<and>
   timeAdded (new_Chain 8888) = 0 \<and>
   addTime_loop 0 8 (new_Chain 8888) (steps live_node [GetInfo, GetInfo, Sleep 500, GetInfo]) =
     (Inr (), steps live_node [GetInfo, GetInfo, Sleep 500, GetInfo,
        ManipulateChainTime 8888 8, Sleep 1000, GetInfo, Sleep 600, GetInfo]) \<and>
   addTime 10 [] (new_Chain 8888) live_node =
     Some (Inr 6500, (new_Chain 8888)\<lparr>timeAdded := 8\<rparr>,
       steps live_node [GetInfo, GetInfo, Sleep 500, GetInfo,
         ManipulateChainTime 8888 8, Sleep 1000, GetInfo, Sleep 600, GetInfo,
         GetInfo, GetInfo, Sleep 500, GetInfo, GetInfo]) \<and>
   (new_Chain 8888)\<lparr>timeAdded := 8\<rparr> =
     (new_Chain 8888)\<lparr>timeAdded := timeAdded (new_Chain 8888) + 8\<rparr>"
proof -
  have t: "(0::number) \<le> 10" and p: "(0::number) < 8" by simp_all
  have d': "(8::number) = addingTime_of live_node 10 []
             (blockTimeToMs live_node (head_block_time \<lparr>head_block_num = 0, head_block_time = ''1970-01-01T00:00:00.000''\<rparr>)) 3"
    by (simp add: addingTime_of_def)
  from addTime_bounded_retry[OF t live_settle d' p live_loop] live_addTime
  have live: "(new_Chain 8888)\<lparr>timeAdded := 8\<rparr> =
     (new_Chain 8888)\<lparr>timeAdded := timeAdded (new_Chain 8888) + 8\<rparr>"
    by blast
  have d: "(8::number) = addingTime_of stalled_node 10 []
             (blockTimeToMs stalled_node (head_block_time \<lparr>head_block_num = 0, head_block_time = ''1970-01-01T00:00:00.000''\<rparr>)) 3"
    by (simp add: addingTime_of_def)
  from addTime_bounded_retry[OF t stalled_settle d p stalled_loop]
  have "attempts 10 8 (new_Chain 8888) (steps stalled_node [GetInfo, GetInfo, Sleep 500, GetInfo]) =
     (Inl (Error ''Exceeded 10 tries to change the blockchain time. Test cannot proceed.''),
      steps stalled_node
        [GetInfo, GetInfo, Sleep 500, GetInfo,
         ManipulateChainTime 8888 8, Sleep 1000, GetInfo, Sleep 600, GetInfo,
         ManipulateChainTime 8888 8, Sleep 1000, GetInfo, Sleep 600, GetInfo,
         ManipulateChainTime 8888 8, Sleep 1000, GetInfo, Sleep 600, GetInfo,
         ManipulateChainTime 8888 8, Sleep 1000, GetInfo, Sleep 600, GetInfo,
         ManipulateChainTime 8888 8, Sleep 1000, GetInfo, Sleep 600, GetInfo,
         ManipulateChainTime 8888 8, Sleep 1000, GetInfo, Sleep 600, GetInfo,
         ManipulateChainTime 8888 8, Sleep 1000, GetInfo, Sleep 600, GetInfo,
         ManipulateChainTime 8888 8, Sleep 1000, GetInfo, Sleep 600, GetInfo,
         ManipulateChainTime 8888 8, Sleep 1000, GetInfo, Sleep 600, GetInfo,
         ManipulateChainTime 8888 8, Sleep 1000, GetInfo, Sleep 600, GetInfo])"
    and "addTime 10 [] (new_Chain 8888) stalled_node =
     Some (Inl (Error ''Exceeded 10 tries to change the blockchain time. Test cannot proceed.''),
       new_Chain 8888,
       steps stalled_node
        [GetInfo, GetInfo, Sleep 500, GetInfo,
         ManipulateChainTime 8888 8, Sleep 1000, GetInfo, Sleep 600, GetInfo,
         ManipulateChainTime 8888 8, Sleep 1000, GetInfo, Sleep 600, GetInfo,
         ManipulateChainTime 8888 8, Sleep 1000, GetInfo, Sleep 600, GetInfo,
         ManipulateChainTime 8888 8, Sleep 1000, GetInfo, Sleep 600, GetInfo,
         ManipulateChainTime 8888 8, Sleep 1000, GetInfo, Sleep 600, GetInfo,
         ManipulateChainTime 8888 8, Sleep 1000, GetInfo, Sleep 600, GetInfo,
         ManipulateChainTime 8888 8, Sleep 1000, GetInfo, Sleep 600, GetInfo,
         ManipulateChainTime 8888 8, Sleep 1000, GetInfo, Sleep 600, GetInfo,
         ManipulateChainTime 8888 8, Sleep 1000, GetInfo, Sleep 600, GetInfo,
         ManipulateChainTime 8888 8, Sleep 1000, GetInfo, Sleep 600, GetInfo])"
    by blast+
  with t p d stalled_settle stalled_loop live live_loop live_addTime show ?thesis
    by (simp add: new_Chain_def)
qed

subsection \<open>Time-travel controller: the returned value\<close>

text \<open>
  C5. When a call of \<^verbatim>\<open>addTime\<close> with a non-negative \<^verbatim>\<open>time\<close> takes the jump path (the
  offset computed after the settling wait is not zero) and returns normally, then the
  retry loop has succeeded, the second settling wait has returned, and the value returned
  is the time of the head block that the node reports to the \<^verbatim>\<open>get_info\<close> made after that
  wait, in milliseconds, minus the reference time: the time of \<^verbatim>\<open>fromBlockTime\<close> when it is
  given, and otherwise that of the head block of the snapshot with which the first
  settling wait began.
\<close>

theorem addTime_returns_elapsed_ms:
  assumes "0 \<le> time"
    and "waitTillNextBlock 2 w = Some (Inr (startingBlock, elapsedBlocks), w1)"
    and "addingTime = addingTime_of w time fromBlockTime
           (blockTimeToMs w (head_block_time startingBlock)) elapsedBlocks"
    and "addingTime \<noteq> 0"
    and "addTime time fromBlockTime c w = Some (Inr v, c', w')"
  shows "\<exists>w2 w3 settled final.
     addTime_loop 0 addingTime c w1 = (Inr (), w2) \<and>
     waitTillNextBlock 2 w2 = Some (Inr settled, w3) \<and>
     getInfo w3 = (Inr final, w') \<and>
     getInfo w = (Inr startingBlock, steps w [GetInfo]) \<and>
     v = of_int (blockTimeToMs w (head_block_time final)
                 - (if fromBlockTime = [] then blockTimeToMs w (head_block_time startingBlock)
                    else blockTimeToMs w fromBlockTime))"
proof -
  have l: "addTime_loop 0 addingTime c w1 = attempts 10 addingTime c w1"
    using addTime_loop_attempts[of 0 addingTime c w1] by (simp add: maxTries_def)
  have sb: "getInfo w = (Inr startingBlock, steps w [GetInfo])"
    using waitTillNextBlock_Inr[OF assms(2)] by (simp add: getInfo_Inr)
  note eq = addTime_settled[OF assms(1,2,3), of c]
  obtain r2 w2 where a: "attempts 10 addingTime c w1 = (r2, w2)" by fastforce
  with assms(4,5) have r2: "r2 = Inr ()" unfolding eq by (cases r2) auto
  with assms(4,5) a obtain settled w3 where s3: "waitTillNextBlock 2 w2 = Some (Inr settled, w3)"
    unfolding eq by (auto split: option.splits sum.splits)
  with assms(4,5) a r2 obtain final where
    g: "getInfo w3 = (Inr final, w')" and
    v: "v = of_int (blockTimeToMs w (head_block_time final)
                 - fromBlockTimeMs_of w fromBlockTime (blockTimeToMs w (head_block_time startingBlock)))"
    unfolding eq by (auto split: sum.splits prod.splits)
  from v have "v = of_int (blockTimeToMs w (head_block_time final)
                 - (if fromBlockTime = [] then blockTimeToMs w (head_block_time startingBlock)
                    else blockTimeToMs w fromBlockTime))"
    by (simp add: fromBlockTimeMs_of_def)
  with l a r2 s3 g sb show ?thesis by auto
qed

theorem addTime_returns_elapsed_ms_witness:
  "(0::number) \<le> 10 \<and>
   waitTillNextBlock 2 live_node =
     Some (Inr (\<lparr>head_block_num = 0, head_block_time = ''1970-01-01T00:00:00.000''\<rparr>, 3), steps live_node [GetInfo, GetInfo, Sleep 500, GetInfo]) \<and>
   addingTime_of live_node 10 ''1970-01-01T00:00:02.000''
     (blockTimeToMs live_node (head_block_time \<lparr>head_block_num = 0, head_block_time = ''1970-01-01T00:00:00.000''\<rparr>)) 3 = 10 \<and>
   addTime 10 ''1970-01-01T00:00:02.000'' (new_Chain 8888) live_node =
     Some (Inr 4500, (new_Chain 8888)\<lparr>timeAdded := 10\<rparr>,
       steps live_node [GetInfo, GetInfo, Sleep 500, GetInfo,
         ManipulateChainTime 8888 10, Sleep 1000, GetInfo, Sleep 600, GetInfo,
         GetInfo, GetInfo, Sleep 500, GetInfo, GetInfo]) \<and>
   (\<exists>w2 w3 settled final.
      addTime_loop 0 10 (new_Chain 8888) (steps live_node [GetInfo, GetInfo, Sleep 500, GetInfo]) = (Inr (), w2) \<and>
      waitTillNextBlock 2 w2 = Some (Inr settled, w3) \<and>
      getInfo w3 = (Inr final, steps live_node [GetInfo, GetInfo, Sleep 500, GetInfo,
         ManipulateChainTime 8888 10, Sleep 1000, GetInfo, Sleep 600, GetInfo,
         GetInfo, GetInfo, Sleep 500, GetInfo, GetInfo]) \<and>
      getInfo live_node = (Inr \<lparr>head_block_num = 0, head_block_time = ''1970-01-01T00:00:00.000''\<rparr>, steps live_node [GetInfo]) \<and>
      (4500::number) = of_int (blockTimeToMs live_node (head_block_time final)
                 - (if ''1970-01-01T00:00:02.000'' = [] then blockTimeToMs live_node (head_block_time \<lparr>head_block_num = 0, head_block_time = ''1970-01-01T00:00:00.000''\<rparr>)
                    else blockTimeToMs live_node ''1970-01-01T00:00:02.000''))) \<and>
   blockTimeToMs live_node ''1970-01-01T00:00:02.000'' = 2000 \<and>
   blockTimeToMs live_node (''1970-01-01T00:00:06.500'') = 6500"
proof -
  have t: "(0::number) \<le> 10" and n: "(10::number) \<noteq> 0" by simp_all
  have d: "(10::number) = addingTime_of live_node 10 ''1970-01-01T00:00:02.000''
             (blockTimeToMs live_node (head_block_time \<lparr>head_block_num = 0, head_block_time = ''1970-01-01T00:00:00.000''\<rparr>)) 3"
    by (simp add: addingTime_of_def blockTimeToMs_def node_defs)
  have m: "blockTimeToMs live_node ''1970-01-01T00:00:02.000'' = 2000"
          "blockTimeToMs live_node (''1970-01-01T00:00:06.500'') = 6500"
    by (simp_all add: blockTimeToMs_def node_defs)
  note c5 = addTime_returns_elapsed_ms[OF t live_settle d n live_addTime_from]
  from t live_settle d[symmetric] live_addTime_from c5 m show ?thesis
    by (intro conjI)
qed

subsection \<open>Time-travel controller: small deltas\<close>

text \<open>
  C10. For \<open>0 \<le> time \<le> 1\<close> and no \<^verbatim>\<open>fromBlockTime\<close>, \<^verbatim>\<open>addTime\<close> does what its settling wait
  does and nothing more: it does not return when the wait does not, it throws what the
  wait throws, and it returns 0 when the wait returns. However it ends, the session is
  unchanged and no time jump is among the calls made. The reason is that the settling
  wait reports at least two elapsed blocks, for which
  \<open>\<lfloor>max 0 (time - elapsedBlocks * 0.5)\<rfloor>\<close> is zero.
\<close>

theorem addTime_small_delta:
  assumes "0 \<le> time" and "time \<le> 1"
  shows "addTime time [] c w =
     (case waitTillNextBlock 2 w of
        None \<Rightarrow> None
      | Some (Inl e, w1) \<Rightarrow> Some (Inl e, c, w1)
      | Some (Inr settled, w1) \<Rightarrow> Some (Inr 0, c, w1)) \<and>
     (\<forall>r c' w'. addTime time [] c w = Some (r, c', w') \<longrightarrow>
        c' = c \<and> jumps (drop (length (trace w)) (trace w')) = []) \<and>
     (\<forall>startingBlock elapsedBlocks w1.
        waitTillNextBlock 2 w = Some (Inr (startingBlock, elapsedBlocks), w1) \<longrightarrow>
        2 \<le> elapsedBlocks \<and>
        \<lfloor>max 0 (time - of_int elapsedBlocks * (1 / 2))\<rfloor> = 0)"
proof -
  have settled: "2 \<le> eb \<and> \<lfloor>max 0 (time - of_int eb * (1 / 2))\<rfloor> = 0 \<and>
                 addTime time [] c w = Some (Inr 0, c, w1)"
    if s: "waitTillNextBlock 2 w = Some (Inr (sb, eb), w1)" for sb eb w1
  proof -
    from waitTillNextBlock_Inr[OF s] have eb: "2 \<le> eb" by simp
    have z: "offset_floor time eb 0 = 0" by (rule offset_floor_small[OF assms(2) eb])
    then have f: "\<lfloor>max 0 (time - of_int eb * (1 / 2))\<rfloor> = 0"
      by (simp add: offset_floor_def offset_clamped_def)
    have d: "0 = addingTime_of w time [] (blockTimeToMs w (head_block_time sb)) eb"
      using z by (simp add: addingTime_of_offset reference_gap_def)
    from addTime_settled[OF assms(1) s d, of c] eb f show ?thesis by simp
  qed
  have eq: "addTime time [] c w =
     (case waitTillNextBlock 2 w of
        None \<Rightarrow> None
      | Some (Inl e, w1) \<Rightarrow> Some (Inl e, c, w1)
      | Some (Inr settled, w1) \<Rightarrow> Some (Inr 0, c, w1))"
    using settled addTime_unsettled[OF assms(1)]
    by (auto split: option.splits sum.splits prod.splits)
  have nojump: "c' = c \<and> jumps (drop (length (trace w)) (trace w')) = []"
    if "addTime time [] c w = Some (r, c', w')" for r c' w'
  proof -
    from that obtain r1 where s: "waitTillNextBlock 2 w = Some (r1, w')" and c: "c' = c"
      unfolding eq by (auto split: option.splits sum.splits prod.splits)
    from waitTillNextBlock_steps[OF s] c show ?thesis by auto
  qed
  from eq nojump settled show ?thesis by blast
qed

theorem addTime_small_delta_witness:
  "(0::number) \<le> 1 \<and> (1::number) \<le> 1 \<and>
   waitTillNextBlock 2 live_node =
     Some (Inr (\<lparr>head_block_num = 0, head_block_time = ''1970-01-01T00:00:00.000''\<rparr>, 3), steps live_node [GetInfo, GetInfo, Sleep 500, GetInfo]) \<and>
   addTime 1 [] (new_Chain 8888) live_node =
     Some (Inr 0, new_Chain 8888, steps live_node [GetInfo, GetInfo, Sleep 500, GetInfo]) \<and>
   jumps (drop (length (trace live_node)) (trace (steps live_node [GetInfo, GetInfo, Sleep 500, GetInfo]))) = [] \<and>
   (2::int) \<le> 3 \<and> \<lfloor>max 0 ((1::number) - of_int 3 * (1 / 2))\<rfloor> = 0"
proof -
  have t: "(0::number) \<le> 1" "(1::number) \<le> 1" by simp_all
  from addTime_small_delta[OF t, of "new_Chain 8888" live_node] live_settle
  show ?thesis by (simp add: jumps_def)
qed

subsection \<open>Account provisioner\<close>

lemma createAccount_actions_steps [simp]:
  "createAccount_actions a s b c (steps w es) = createAccount_actions a s b c w"
  by (simp add: createAccount_actions_def key_authority_def availableKeys0_def)

lemma submitted_steps [simp]: "submitted names s c (steps w es) = submitted names s c w"
  by (simp add: submitted_def)

lemma createAccount_eq:
  "createAccount account supplyAmount bytes c w =
     (if transact_ok w (trace w) then Inr (Account account) else Inl TransactError,
      steps w [Transact (createAccount_actions account supplyAmount bytes c w)])"
  by (simp add: createAccount_def transact_def steps_def)

lemma createAccounts_loop_sound:
  "createAccounts_loop names s acc c w = (r, w') \<Longrightarrow>
     (\<forall>accs. r = Inr accs \<longrightarrow>
        accs = acc @ map Account names \<and> w' = steps w (submitted names s c w)) \<and>
     (\<forall>e. r = Inl e \<longrightarrow>
        e = TransactError \<and>
        (\<exists>k<length names.
           w' = steps w (submitted (take (Suc k) names) s c w) \<and>
           \<not> transact_ok w (trace w @ submitted (take k names) s c w)))"
proof (induction names arbitrary: acc w)
  case Nil
  then show ?case by (auto simp: submitted_def)
next
  case (Cons a names)
  let ?T = "Transact (createAccount_actions a s default_bytes c w)"
  show ?case
  proof (cases "transact_ok w (trace w)")
    case False
    with Cons.prems have "r = Inl TransactError" "w' = steps w [?T]"
      by (auto simp: createAccount_eq)
    with False show ?thesis
      by (auto simp: submitted_def intro!: exI[of _ 0])
  next
    case True
    with Cons.prems have call: "createAccounts_loop names s (acc @ [Account a]) c (steps w [?T]) = (r, w')"
      by (auto simp: createAccount_eq)
    note ih = Cons.IH[OF call]
    have ok: "accs = acc @ map Account (a # names) \<and> w' = steps w (submitted (a # names) s c w)"
      if "r = Inr accs" for accs
      using ih that by (simp add: submitted_def)
    have bad: "e = TransactError \<and>
        (\<exists>k<length (a # names).
           w' = steps w (submitted (take (Suc k) (a # names)) s c w) \<and>
           \<not> transact_ok w (trace w @ submitted (take k (a # names)) s c w))"
      if "r = Inl e" for e
    proof -
      from ih that obtain k where k: "k < length names"
        "w' = steps (steps w [?T]) (submitted (take (Suc k) names) s c w)"
        "\<not> transact_ok w (trace w @ [?T] @ submitted (take k names) s c w)"
        and e: "e = TransactError"
        by auto
      from k have "Suc k < length (a # names) \<and>
           w' = steps w (submitted (take (Suc (Suc k)) (a # names)) s c w) \<and>
           \<not> transact_ok w (trace w @ submitted (take (Suc k) (a # names)) s c w)"
        by (simp add: submitted_def)
      with e show ?thesis by blast
    qed
    from ok bad show ?thesis by blast
  qed
qed

lemma createTestAccounts_loop_eq:
  "createTestAccounts_loop i len acc = acc @ map testAccountName [i..<len]"
proof (induction i len acc rule: createTestAccounts_loop.induct)
  case (1 i len acc)
  show ?case
  proof (cases "i < len")
    case True
    then show ?thesis
      using 1 by (simp add: createTestAccounts_loop.simps[of i] upt_conv_Cons)
  next
    case False
    then show ?thesis by (simp add: createTestAccounts_loop.simps[of i])
  qed
qed

lemma default_names:
  "createTestAccounts_loop 0 10 [] =
     [''acc11.test'', ''acc12.test'', ''acc13.test'', ''acc14.test'', ''acc15.test'',
      ''acc21.test'', ''acc22.test'', ''acc23.test'', ''acc24.test'', ''acc25.test'']"
  by (simp add: createTestAccounts_loop.simps testAccountName_def string_of_nat.simps)

lemma createAccounts_loop_ok:
  "(\<And>h. transact_ok w h) \<Longrightarrow>
   createAccounts_loop names s acc c w =
     (Inr (acc @ map Account names), steps w (submitted names s c w))"
proof (induction names arbitrary: acc w)
  case Nil
  then show ?case by (simp add: submitted_def)
next
  case (Cons a names)
  have "createAccounts_loop names s (acc @ [Account a]) c
          (steps w [Transact (createAccount_actions a s default_bytes c w)]) =
        (Inr ((acc @ [Account a]) @ map Account names),
         steps (steps w [Transact (createAccount_actions a s default_bytes c w)])
           (submitted names s c
              (steps w [Transact (createAccount_actions a s default_bytes c w)])))"
    by (rule Cons.IH) (simp add: Cons.prems)
  then show ?case using Cons.prems by (simp add: createAccount_eq submitted_def)
qed

lemma live_initialize:
  "initializeTestAccounts (new_Chain 8888) live_node =
     (Inr (),
      (new_Chain 8888)\<lparr>accounts := map Account (createTestAccounts_loop 0 10 [])\<rparr>,
      steps live_node
        (map (\<lambda>name. Transact (createAccount_actions name
                (toAssetQuantity live_node 100 (coreToken (new_Chain 8888)))
                default_bytes (new_Chain 8888) live_node))
           (createTestAccounts_loop 0 10 [])))"
proof -
  have ok: "transact_ok live_node h" for h by (simp add: live_node_def)
  show ?thesis
    by (simp add: initializeTestAccounts_def createTestAccounts_def createAccounts_def
          createAccounts_loop_ok[OF ok] default_supplyAmount_def submitted_def)
qed

lemma live_createAccounts:
  "createAccounts [''alice'', ''bob''] ''5 WAX'' (new_Chain 8888) live_node =
     (Inr [Account ''alice'', Account ''bob''],
      steps live_node
        [Transact (createAccount_actions ''alice'' ''5 WAX'' default_bytes (new_Chain 8888) live_node),
         Transact (createAccount_actions ''bob'' ''5 WAX'' default_bytes (new_Chain 8888) live_node)])"
proof -
  have ok: "transact_ok live_node h" for h by (simp add: live_node_def)
  show ?thesis by (simp add: createAccounts_def createAccount_eq ok)
qed

lemma one_shot_createAccounts:
  "createAccounts [''alice'', ''bob'', ''carol''] ''5 WAX'' (new_Chain 8888) one_shot_node =
     (Inl TransactError,
      steps one_shot_node
        [Transact (createAccount_actions ''alice'' ''5 WAX'' default_bytes (new_Chain 8888) one_shot_node),
         Transact (createAccount_actions ''bob'' ''5 WAX'' default_bytes (new_Chain 8888) one_shot_node)])"
proof -
  have ok: "transact_ok one_shot_node h = (h = [])" for h
    by (simp add: one_shot_node_def live_node_def)
  have e: "trace one_shot_node = []" by (simp add: one_shot_node_def live_node_def)
  show ?thesis by (simp add: createAccounts_def createAccount_eq ok e)
qed

text \<open>
  C6. \<^verbatim>\<open>createAccount\<close> makes one call, \<^verbatim>\<open>api.transact\<close>, with exactly four actions in this
  order: \<^verbatim>\<open>newaccount\<close> by \<^verbatim>\<open>eosio\<close> for the name, with owner and active both the
  threshold-1 authority of the first available key with weight 1; \<^verbatim>\<open>buyrambytes\<close> paid by
  \<^verbatim>\<open>eosio\<close> for the given number of bytes (1048576 in a batch); \<^verbatim>\<open>delegatebw\<close> from \<^verbatim>\<open>eosio\<close>
  of \<^verbatim>\<open>toAssetQuantity(10, coreToken)\<close> for network and for CPU with \<^verbatim>\<open>transfer\<close> set;
  \<^verbatim>\<open>transfer\<close> on \<^verbatim>\<open>eosio.token\<close> from \<^verbatim>\<open>eosio\<close> of the supply amount with the memo
  \<^verbatim>\<open>supply to test account\<close>. It returns the account when the transaction is accepted and
  throws when it is rejected. A batch that returns has submitted one such transaction per
  name, in the order of the names, and returns the accounts in that order; a batch that
  throws has submitted the transactions of the names up to the first rejected one and
  none after it.
\<close>

theorem createAccounts_sequential:
  "createAccount_actions account supplyAmount bytes c w =
     [\<lparr>act_account = ''eosio'', act_name = ''newaccount'',
       act_authorization = [\<lparr>actor = ''eosio'', permission = ''active''\<rparr>],
       act_data = Newaccount ''eosio'' account
         \<lparr>threshold = 1, keys = [\<lparr>key = availableKeys0 w, weight = 1\<rparr>],
          auth_accounts = [], auth_waits = []\<rparr>
         \<lparr>threshold = 1, keys = [\<lparr>key = availableKeys0 w, weight = 1\<rparr>],
          auth_accounts = [], auth_waits = []\<rparr>\<rparr>,
      \<lparr>act_account = ''eosio'', act_name = ''buyrambytes'',
       act_authorization = [\<lparr>actor = ''eosio'', permission = ''active''\<rparr>],
       act_data = Buyrambytes ''eosio'' account bytes\<rparr>,
      \<lparr>act_account = ''eosio'', act_name = ''delegatebw'',
       act_authorization = [\<lparr>actor = ''eosio'', permission = ''active''\<rparr>],
       act_data = Delegatebw ''eosio'' account
         (toAssetQuantity w 10 (coreToken c)) (toAssetQuantity w 10 (coreToken c)) 1\<rparr>,
      \<lparr>act_account = ''eosio.token'', act_name = ''transfer'',
       act_authorization = [\<lparr>actor = ''eosio'', permission = ''active''\<rparr>],
       act_data = Transfer ''eosio'' account supplyAmount ''supply to test account''\<rparr>] \<and>
   createAccount account supplyAmount bytes c w =
     (if transact_ok w (trace w) then Inr (Account account) else Inl TransactError,
      steps w [Transact (createAccount_actions account supplyAmount bytes c w)]) \<and>
   default_bytes = 1048576 \<and>
   (\<forall>names r w'. createAccounts names supplyAmount c w = (r, w') \<longrightarrow>
      (\<forall>accs. r = Inr accs \<longrightarrow>
         accs = map Account names \<and>
         w' = steps w (map (\<lambda>name. Transact (createAccount_actions name supplyAmount
                                                default_bytes c w)) names)) \<and>
      (\<forall>e. r = Inl e \<longrightarrow>
         e = TransactError \<and>
         (\<exists>k<length names.
            w' = steps w (map (\<lambda>name. Transact (createAccount_actions name supplyAmount
                                                   default_bytes c w)) (take (Suc k) names)) \<and>
            \<not> transact_ok w (trace w @ map (\<lambda>name. Transact (createAccount_actions name
                                   supplyAmount default_bytes c w)) (take k names)))))"
proof -
  have a: "createAccount_actions account supplyAmount bytes c w =
     [\<lparr>act_account = ''eosio'', act_name = ''newaccount'',
       act_authorization = [\<lparr>actor = ''eosio'', permission = ''active''\<rparr>],
       act_data = Newaccount ''eosio'' account
         \<lparr>threshold = 1, keys = [\<lparr>key = availableKeys0 w, weight = 1\<rparr>],
          auth_accounts = [], auth_waits = []\<rparr>
         \<lparr>threshold = 1, keys = [\<lparr>key = availableKeys0 w, weight = 1\<rparr>],
          auth_accounts = [], auth_waits = []\<rparr>\<rparr>,
      \<lparr>act_account = ''eosio'', act_name = ''buyrambytes'',
       act_authorization = [\<lparr>actor = ''eosio'', permission = ''active''\<rparr>],
       act_data = Buyrambytes ''eosio'' account bytes\<rparr>,
      \<lparr>act_account = ''eosio'', act_name = ''delegatebw'',
       act_authorization = [\<lparr>actor = ''eosio'', permission = ''active''\<rparr>],
       act_data = Delegatebw ''eosio'' account
         (toAssetQuantity w 10 (coreToken c)) (toAssetQuantity w 10 (coreToken c)) 1\<rparr>,
      \<lparr>act_account = ''eosio.token'', act_name = ''transfer'',
       act_authorization = [\<lparr>actor = ''eosio'', permission = ''active''\<rparr>],
       act_data = Transfer ''eosio'' account supplyAmount ''supply to test account''\<rparr>]"
    by (simp add: createAccount_actions_def eosio_active_def key_authority_def)
  have b: "default_bytes = 1048576" by (simp add: default_bytes_def)
  have batch: "(\<forall>accs. r = Inr accs \<longrightarrow>
         accs = map Account names \<and> w' = steps w (submitted names supplyAmount c w)) \<and>
      (\<forall>e. r = Inl e \<longrightarrow>
         e = TransactError \<and>
         (\<exists>k<length names.
            w' = steps w (submitted (take (Suc k) names) supplyAmount c w) \<and>
            \<not> transact_ok w (trace w @ submitted (take k names) supplyAmount c w)))"
    if "createAccounts names supplyAmount c w = (r, w')" for names r w'
    using createAccounts_loop_sound[of names supplyAmount "[]" c w r w'] that
    by (simp add: createAccounts_def)
  from a b batch createAccount_eq[of account supplyAmount bytes c w] show ?thesis
    unfolding submitted_def by blast
qed

theorem createAccounts_sequential_witness:
  "createAccounts [''alice'', ''bob''] ''5 WAX'' (new_Chain 8888) live_node =
     (Inr [Account ''alice'', Account ''bob''],
      steps live_node
        [Transact (createAccount_actions ''alice'' ''5 WAX'' default_bytes (new_Chain 8888) live_node),
         Transact (createAccount_actions ''bob'' ''5 WAX'' default_bytes (new_Chain 8888) live_node)]) \<and>
   createAccounts [''alice'', ''bob'', ''carol''] ''5 WAX'' (new_Chain 8888) one_shot_node =
     (Inl TransactError,
      steps one_shot_node
        [Transact (createAccount_actions ''alice'' ''5 WAX'' default_bytes (new_Chain 8888) one_shot_node),
         Transact (createAccount_actions ''bob'' ''5 WAX'' default_bytes (new_Chain 8888) one_shot_node)]) \<and>
   transact_ok one_shot_node (trace one_shot_node) \<and>
   \<not> transact_ok one_shot_node (trace one_shot_node @
        [Transact (createAccount_actions ''alice'' ''5 WAX'' default_bytes (new_Chain 8888) one_shot_node)]) \<and>
   map act_name (createAccount_actions ''alice'' ''5 WAX'' default_bytes (new_Chain 8888) live_node) =
     [''newaccount'', ''buyrambytes'', ''delegatebw'', ''transfer''] \<and>
   act_data (createAccount_actions ''alice'' ''5 WAX'' default_bytes (new_Chain 8888) live_node ! 0) =
     Newaccount ''eosio'' ''alice''
       \<lparr>threshold = 1, keys = [\<lparr>key = Some ''EOS6MRy'', weight = 1\<rparr>],
        auth_accounts = [], auth_waits = []\<rparr>
       \<lparr>threshold = 1, keys = [\<lparr>key = Some ''EOS6MRy'', weight = 1\<rparr>],
        auth_accounts = [], auth_waits = []\<rparr> \<and>
   act_data (createAccount_actions ''alice'' ''5 WAX'' default_bytes (new_Chain 8888) live_node ! 2) =
     Delegatebw ''eosio'' ''alice'' ''10 WAX'' ''10 WAX'' 1 \<and>
   (\<exists>k<length [''alice'', ''bob'', ''carol''].
      steps one_shot_node
        [Transact (createAccount_actions ''alice'' ''5 WAX'' default_bytes (new_Chain 8888) one_shot_node),
         Transact (createAccount_actions ''bob'' ''5 WAX'' default_bytes (new_Chain 8888) one_shot_node)] =
      steps one_shot_node
        (map (\<lambda>name. Transact (createAccount_actions name ''5 WAX'' default_bytes
                (new_Chain 8888) one_shot_node)) (take (Suc k) [''alice'', ''bob'', ''carol''])) \<and>
      \<not> transact_ok one_shot_node (trace one_shot_node @
        map (\<lambda>name. Transact (createAccount_actions name ''5 WAX'' default_bytes
                (new_Chain 8888) one_shot_node)) (take k [''alice'', ''bob'', ''carol''])))"
proof -
  from createAccounts_sequential[of "''alice''" "''5 WAX''" default_bytes "new_Chain 8888"
         one_shot_node] one_shot_createAccounts
  have seq: "(\<exists>k<length [''alice'', ''bob'', ''carol''].
      steps one_shot_node
        [Transact (createAccount_actions ''alice'' ''5 WAX'' default_bytes (new_Chain 8888) one_shot_node),
         Transact (createAccount_actions ''bob'' ''5 WAX'' default_bytes (new_Chain 8888) one_shot_node)] =
      steps one_shot_node
        (map (\<lambda>name. Transact (createAccount_actions name ''5 WAX'' default_bytes
                (new_Chain 8888) one_shot_node)) (take (Suc k) [''alice'', ''bob'', ''carol''])) \<and>
      \<not> transact_ok one_shot_node (trace one_shot_node @
        map (\<lambda>name. Transact (createAccount_actions name ''5 WAX'' default_bytes
                (new_Chain 8888) one_shot_node)) (take k [''alice'', ''bob'', ''carol''])))"
    by blast
  have k: "availableKeys0 live_node = Some ''EOS6MRy''"
    by (simp add: availableKeys0_def live_node_def)
  have q: "toAssetQuantity live_node 10 (coreToken (new_Chain 8888)) = ''10 WAX''"
    by (simp add: live_node_def new_Chain_def string_of_nat.simps)
  have t: "transact_ok one_shot_node (trace one_shot_node)"
    "\<not> transact_ok one_shot_node (trace one_shot_node @
        [Transact (createAccount_actions ''alice'' ''5 WAX'' default_bytes (new_Chain 8888) one_shot_node)])"
    by (simp_all add: one_shot_node_def live_node_def)
  from createAccounts_sequential[of "''alice''" "''5 WAX''" default_bytes "new_Chain 8888" live_node]
  have "createAccount_actions ''alice'' ''5 WAX'' default_bytes (new_Chain 8888) live_node =
     [\<lparr>act_account = ''eosio'', act_name = ''newaccount'',
       act_authorization = [\<lparr>actor = ''eosio'', permission = ''active''\<rparr>],
       act_data = Newaccount ''eosio'' ''alice''
         \<lparr>threshold = 1, keys = [\<lparr>key = availableKeys0 live_node, weight = 1\<rparr>],
          auth_accounts = [], auth_waits = []\<rparr>
         \<lparr>threshold = 1, keys = [\<lparr>key = availableKeys0 live_node, weight = 1\<rparr>],
          auth_accounts = [], auth_waits = []\<rparr>\<rparr>,
      \<lparr>act_account = ''eosio'', act_name = ''buyrambytes'',
       act_authorization = [\<lparr>actor = ''eosio'', permission = ''active''\<rparr>],
       act_data = Buyrambytes ''eosio'' ''alice'' default_bytes\<rparr>,
      \<lparr>act_account = ''eosio'', act_name = ''delegatebw'',
       act_authorization = [\<lparr>actor = ''eosio'', permission = ''active''\<rparr>],
       act_data = Delegatebw ''eosio'' ''alice''
         (toAssetQuantity live_node 10 (coreToken (new_Chain 8888)))
         (toAssetQuantity live_node 10 (coreToken (new_Chain 8888))) 1\<rparr>,
      \<lparr>act_account = ''eosio.token'', act_name = ''transfer'',
       act_authorization = [\<lparr>actor = ''eosio'', permission = ''active''\<rparr>],
       act_data = Transfer ''eosio'' ''alice'' ''5 WAX'' ''supply to test account''\<rparr>]"
    by (rule conjunct1)
  then have acts:
    "map act_name (createAccount_actions ''alice'' ''5 WAX'' default_bytes (new_Chain 8888) live_node) =
       [''newaccount'', ''buyrambytes'', ''delegatebw'', ''transfer'']"
    "act_data (createAccount_actions ''alice'' ''5 WAX'' default_bytes (new_Chain 8888) live_node ! 0) =
     Newaccount ''eosio'' ''alice''
       \<lparr>threshold = 1, keys = [\<lparr>key = Some ''EOS6MRy'', weight = 1\<rparr>],
        auth_accounts = [], auth_waits = []\<rparr>
       \<lparr>threshold = 1, keys = [\<lparr>key = Some ''EOS6MRy'', weight = 1\<rparr>],
        auth_accounts = [], auth_waits = []\<rparr>"
    "act_data (createAccount_actions ''alice'' ''5 WAX'' default_bytes (new_Chain 8888) live_node ! 2) =
       Delegatebw ''eosio'' ''alice'' ''10 WAX'' ''10 WAX'' 1"
    using k q by simp_all
  from live_createAccounts one_shot_createAccounts t acts seq show ?thesis
    by (intro conjI)
qed

text \<open>
  C7, as the specification words it, names the default accounts \<^verbatim>\<open>a11.test\<close> to
  \<^verbatim>\<open>a25.test\<close>. The template of \<^verbatim>\<open>createTestAccounts\<close> starts each name with \<^verbatim>\<open>acc\<close>: the
  ten names are \<^verbatim>\<open>acc11.test\<close> to \<^verbatim>\<open>acc25.test\<close>, and neither \<^verbatim>\<open>a11.test\<close> nor \<^verbatim>\<open>a25.test\<close>
  is among them.
\<close>

theorem initializeTestAccounts_names_counterexample:
  "createTestAccounts_loop 0 10 [] \<noteq>
     [''a11.test'', ''a12.test'', ''a13.test'', ''a14.test'', ''a15.test'',
      ''a21.test'', ''a22.test'', ''a23.test'', ''a24.test'', ''a25.test''] \<and>
   ''a11.test'' \<notin> set (createTestAccounts_loop 0 10 []) \<and>
   ''a25.test'' \<notin> set (createTestAccounts_loop 0 10 []) \<and>
   hd (createTestAccounts_loop 0 10 []) = ''acc11.test'' \<and>
   last (createTestAccounts_loop 0 10 []) = ''acc25.test'' \<and>
   fst (initializeTestAccounts (new_Chain 8888) live_node) = Inr () \<and>
   accounts (fst (snd (initializeTestAccounts (new_Chain 8888) live_node))) =
     map Account
       [''acc11.test'', ''acc12.test'', ''acc13.test'', ''acc14.test'', ''acc15.test'',
      ''acc21.test'', ''acc22.test'', ''acc23.test'', ''acc24.test'', ''acc25.test'']"
  by (simp add: live_initialize default_names)

text \<open>
  C7, amended. The default batch of \<^verbatim>\<open>initializeTestAccounts\<close> has exactly ten names,
  all different: \<^verbatim>\<open>acc\<close>, the group number \<open>i div 5 + 1\<close>, the slot \<open>i mod 5 + 1\<close> and
  \<^verbatim>\<open>.test\<close> for the indices 0 to 9, that is \<^verbatim>\<open>acc11.test\<close> to \<^verbatim>\<open>acc15.test\<close> and
  \<^verbatim>\<open>acc21.test\<close> to \<^verbatim>\<open>acc25.test\<close>. For every batch size the names are a function of the
  size alone, so they are the same in every session. When the batch succeeds, the
  accounts of the session are those ten, and one transaction per name was submitted, in
  order, whose fourth action transfers \<^verbatim>\<open>toAssetQuantity(100, coreToken)\<close> to the name;
  the core token of a new session is WAX with 8 decimals.
\<close>

theorem initializeTestAccounts_batch:
  "createTestAccounts_loop 0 10 [] =
     [''acc11.test'', ''acc12.test'', ''acc13.test'', ''acc14.test'', ''acc15.test'',
      ''acc21.test'', ''acc22.test'', ''acc23.test'', ''acc24.test'', ''acc25.test''] \<and>
   length (createTestAccounts_loop 0 10 []) = 10 \<and>
   distinct (createTestAccounts_loop 0 10 []) \<and>
   createTestAccounts_loop 0 n [] = map testAccountName [0..<n] \<and>
   (\<forall>c' w'. initializeTestAccounts c w = (Inr (), c', w') \<longrightarrow>
      c' = c\<lparr>accounts := map Account (createTestAccounts_loop 0 10 [])\<rparr> \<and>
      w' = steps w
        (map (\<lambda>name. Transact (createAccount_actions name
                (toAssetQuantity w 100 (coreToken c)) default_bytes c w))
           (createTestAccounts_loop 0 10 []))) \<and>
   (\<forall>name. createAccount_actions name (toAssetQuantity w 100 (coreToken c)) default_bytes c w ! 3 =
      \<lparr>act_account = ''eosio.token'', act_name = ''transfer'',
       act_authorization = [\<lparr>actor = ''eosio'', permission = ''active''\<rparr>],
       act_data = Transfer ''eosio'' name (toAssetQuantity w 100 (coreToken c))
                    ''supply to test account''\<rparr>) \<and>
   coreToken (new_Chain p) = \<lparr>symbol = ''WAX'', decimal = 8\<rparr>"
proof -
  have n: "createTestAccounts_loop 0 n [] = map testAccountName [0..<n]"
    by (simp add: createTestAccounts_loop_eq)
  have init: "c' = c\<lparr>accounts := map Account (createTestAccounts_loop 0 10 [])\<rparr> \<and>
      w' = steps w
        (map (\<lambda>name. Transact (createAccount_actions name
                (toAssetQuantity w 100 (coreToken c)) default_bytes c w))
           (createTestAccounts_loop 0 10 []))"
    if "initializeTestAccounts c w = (Inr (), c', w')" for c' w'
  proof -
    obtain r1 w1 where l: "createAccounts_loop (createTestAccounts_loop 0 10 [])
        (toAssetQuantity w 100 (coreToken c)) [] c w = (r1, w1)" by fastforce
    with that obtain accs where "r1 = Inr accs" "c' = c\<lparr>accounts := accs\<rparr>" "w' = w1"
      by (auto simp: initializeTestAccounts_def createTestAccounts_def createAccounts_def
            default_supplyAmount_def split: sum.splits)
    with createAccounts_loop_sound[OF l] show ?thesis by (simp add: submitted_def)
  qed
  have tr: "createAccount_actions name (toAssetQuantity w 100 (coreToken c)) default_bytes c w ! 3 =
      \<lparr>act_account = ''eosio.token'', act_name = ''transfer'',
       act_authorization = [\<lparr>actor = ''eosio'', permission = ''active''\<rparr>],
       act_data = Transfer ''eosio'' name (toAssetQuantity w 100 (coreToken c))
                    ''supply to test account''\<rparr>" for name
    by (simp add: createAccount_actions_def eosio_active_def)
  have ct: "coreToken (new_Chain p) = \<lparr>symbol = ''WAX'', decimal = 8\<rparr>"
    by (simp add: new_Chain_def)
  have len: "length (createTestAccounts_loop 0 10 []) = 10"
    and dis: "distinct (createTestAccounts_loop 0 10 [])"
    by (simp_all add: default_names)
  from default_names len dis n init tr ct show ?thesis by blast
qed

theorem initializeTestAccounts_batch_witness:
  "initializeTestAccounts (new_Chain 8888) live_node =
     (Inr (),
      (new_Chain 8888)\<lparr>accounts := map Account (createTestAccounts_loop 0 10 [])\<rparr>,
      steps live_node
        (map (\<lambda>name. Transact (createAccount_actions name
                (toAssetQuantity live_node 100 (coreToken (new_Chain 8888)))
                default_bytes (new_Chain 8888) live_node))
           (createTestAccounts_loop 0 10 []))) \<and>
   createTestAccounts_loop 0 10 [] =
     [''acc11.test'', ''acc12.test'', ''acc13.test'', ''acc14.test'', ''acc15.test'',
      ''acc21.test'', ''acc22.test'', ''acc23.test'', ''acc24.test'', ''acc25.test''] \<and>
   toAssetQuantity live_node 100 (coreToken (new_Chain 8888)) = ''100 WAX'' \<and>
   createAccount_actions ''acc11.test'' ''100 WAX'' default_bytes (new_Chain 8888) live_node ! 3 =
      \<lparr>act_account = ''eosio.token'', act_name = ''transfer'',
       act_authorization = [\<lparr>actor = ''eosio'', permission = ''active''\<rparr>],
       act_data = Transfer ''eosio'' ''acc11.test'' ''100 WAX'' ''supply to test account''\<rparr>"
proof -
  have q: "toAssetQuantity live_node 100 (coreToken (new_Chain 8888)) = ''100 WAX''"
    by (simp add: live_node_def new_Chain_def string_of_nat.simps)
  from initializeTestAccounts_batch[of 10 "new_Chain 8888" live_node 8888] live_initialize q
  show ?thesis by simp
qed

end
